theory Spec2Isabelle
  imports Complex_Main "HOL-Library.Multiset" "HOL-Library.Word"
begin

section \<open>Shared values\<close>

text \<open>
  Exceptions of the TypeScript sources are values: \<open>TypeError\<close> is the runtime's own
  (a method called on a value that has none), \<open>Error\<close> carries the message of a
  \<^verbatim>\<open>throw new Error(...)\<close>, \<open>DbError\<close> is a failure raised by the persistence layer.
\<close>

datatype error = TypeError | Error string | DbError

text \<open>
  Values typed \<^verbatim>\<open>any\<close> or \<^verbatim>\<open>Record<string, any>\<close> (rule conditions, request metadata)
  are JSON values. Numbers are exact rationals; an object is the list of its entries in
  enumeration order. Strings are lists of 8-bit characters, read as ASCII.
\<close>

datatype json =
    JNull
  | JBool bool
  | JNum rat
  | JStr string
  | JArr "json list"
  | JObj "(string \<times> json) list"

text \<open>
  A \<^verbatim>\<open>Date\<close> carries its instant in milliseconds and the two local-time readings the rule
  engine asks for.
\<close>

record Date =
  getTime :: int
  getDay :: nat
  getHours :: nat

section \<open>DataSecurityService\<close>

definition PCI_FIELDS :: "string list" where
  "PCI_FIELDS = [''cardNumber'', ''cvv'', ''cardholderName'', ''cardTrack1'', ''cardTrack2'', ''pin'']"

definition REDACTED :: json where
  "REDACTED = JStr ''[REDACTED]''"

definition is_digit :: "char \<Rightarrow> bool" where
  "is_digit c = (48 \<le> (of_char c :: nat) \<and> (of_char c :: nat) \<le> 57)"

definition digit_value :: "char \<Rightarrow> nat" where
  "digit_value c = of_char c - 48"

text \<open>The format test \<^verbatim>\<open>/^\d{13,19}$/\<close> of \<^verbatim>\<open>isValidPan\<close>.\<close>

definition pan_format :: "string \<Rightarrow> bool" where
  "pan_format pan = (13 \<le> length pan \<and> length pan \<le> 19 \<and> list_all is_digit pan)"

text \<open>
  The loop of \<^verbatim>\<open>isValidPan\<close>: \<open>i\<close> counts the digits still to visit, so the digit
  visited is \<open>digits ! (i - 1)\<close>, from the rightmost to the leftmost.
\<close>

fun luhn_loop :: "nat list \<Rightarrow> nat \<Rightarrow> nat \<Rightarrow> bool \<Rightarrow> nat" where
  "luhn_loop digits 0 acc shouldDouble = acc"
| "luhn_loop digits (Suc i) acc shouldDouble =
    (let digit = digits ! i;
         digit = (if shouldDouble
                  then (let digit = digit * 2 in if digit > 9 then digit - 9 else digit)
                  else digit)
     in luhn_loop digits i (acc + digit) (\<not> shouldDouble))"

definition isValidPan :: "string \<Rightarrow> bool" where
  "isValidPan pan =
    (if pan = [] \<or> \<not> pan_format pan then False
     else luhn_loop (map digit_value pan) (length pan) 0 False mod 10 = 0)"

text \<open>
  The Luhn checksum as the specification words it: counting from the rightmost digit,
  every second digit is doubled, 9 is subtracted from a doubled digit above 9, and the
  values are summed.
\<close>

fun luhn_terms :: "nat list \<Rightarrow> bool \<Rightarrow> nat list" where
  "luhn_terms [] second = []"
| "luhn_terms (d # ds) second =
    (if second then (if 2 * d > 9 then 2 * d - 9 else 2 * d) else d) # luhn_terms ds (\<not> second)"

definition luhn_checksum_spec :: "string \<Rightarrow> nat" where
  "luhn_checksum_spec pan = sum_list (luhn_terms (rev (map digit_value pan)) False)"

definition maskPan :: "string \<Rightarrow> error + string" where
  "maskPan pan =
    (if \<not> isValidPan pan then Inl (Error ''Invalid PAN format'')
     else (let last4 = drop (length pan - 4) pan;
               prefix = take 6 pan;
               maskedMiddle = replicate (length pan - 10) (CHR ''*'')
           in Inr (prefix @ maskedMiddle @ last4)))"

text \<open>
  \<^verbatim>\<open>secureSanitizeObject\<close> hands \<^verbatim>\<open>isValidPan\<close> a value of any type. \<^verbatim>\<open>!pan\<close> rejects
  the falsy values; the regular expression is tested on the value's string form, which
  for a number is its decimal numeral and for a one-element array the form of the
  element; a value that passes and is no string then has no \<^verbatim>\<open>split\<close> method.
\<close>

definition falsy :: "json \<Rightarrow> bool" where
  "falsy v = (v = JNull \<or> v = JBool False \<or> v = JNum 0 \<or> v = JStr [])"

fun string_form_pan_shaped :: "json \<Rightarrow> bool" where
  "string_form_pan_shaped (JStr s) = pan_format s"
| "string_form_pan_shaped (JNum n) = (n = of_int \<lfloor>n\<rfloor> \<and> 10 ^ 12 \<le> n \<and> n < 10 ^ 19)"
| "string_form_pan_shaped (JArr [x]) = string_form_pan_shaped x"
| "string_form_pan_shaped v = False"

definition isValidPan_any :: "json \<Rightarrow> error + bool" where
  "isValidPan_any pan =
    (if falsy pan \<or> \<not> string_form_pan_shaped pan then Inr False
     else (case pan of
             JStr s \<Rightarrow> Inr (luhn_loop (map digit_value s) (length s) 0 False mod 10 = 0)
           | _ \<Rightarrow> Inl TypeError))"

text \<open>
  The branch of \<^verbatim>\<open>secureSanitizeObject\<close> for the keys \<^verbatim>\<open>cardNumber\<close> and \<^verbatim>\<open>pan\<close>: the
  conditional expression under its \<^verbatim>\<open>try\<close>, with the \<^verbatim>\<open>catch\<close> storing the redaction
  marker.
\<close>

definition sanitizePanValue :: "json \<Rightarrow> json" where
  "sanitizePanValue v =
    (case isValidPan_any v of
       Inl e \<Rightarrow> REDACTED
     | Inr valid \<Rightarrow>
         if valid
         then (case v of
                 JStr s \<Rightarrow> (case maskPan s of Inl e \<Rightarrow> REDACTED | Inr masked \<Rightarrow> JStr masked)
               | _ \<Rightarrow> REDACTED)
         else REDACTED)"

text \<open>\<^verbatim>\<open>typeof v === 'object' && v !== null\<close>\<close>

fun is_object :: "json \<Rightarrow> bool" where
  "is_object (JArr xs) = True"
| "is_object (JObj kvs) = True"
| "is_object v = False"

text \<open>The decimal numeral of an array index, the key the spread \<^verbatim>\<open>{ ...obj }\<close> gives it.\<close>

fun nat_to_string :: "nat \<Rightarrow> string" where
  "nat_to_string n =
    (if n < 10 then [char_of (48 + n)]
     else nat_to_string (n div 10) @ [char_of (48 + n mod 10)])"

declare nat_to_string.simps [simp del]

text \<open>
  \<^verbatim>\<open>secureSanitizeObject\<close>: a falsy value or a value that is no object is returned as it
  is; otherwise the spread copies the own entries into a plain object (an array's
  elements under their indices) and the \<^verbatim>\<open>for ... in\<close> loop rewrites each entry.
  \<open>sanitizeEntries\<close> is that loop over an object's entries, \<open>sanitizeItems\<close> the same loop
  over the entries the spread makes of an array from index \<open>i\<close> on.
\<close>

fun secureSanitizeObject :: "json \<Rightarrow> json"
  and sanitizeEntries :: "(string \<times> json) list \<Rightarrow> (string \<times> json) list"
  and sanitizeItems :: "nat \<Rightarrow> json list \<Rightarrow> (string \<times> json) list"
where
  "secureSanitizeObject (JObj kvs) = JObj (sanitizeEntries kvs)"
| "secureSanitizeObject (JArr xs) = JObj (sanitizeItems 0 xs)"
| "secureSanitizeObject JNull = JNull"
| "secureSanitizeObject (JBool b) = JBool b"
| "secureSanitizeObject (JNum n) = JNum n"
| "secureSanitizeObject (JStr s) = JStr s"
| "sanitizeEntries [] = []"
| "sanitizeEntries ((key, v) # kvs) =
    (key,
     if key \<in> set PCI_FIELDS then REDACTED
     else if key = ''cardNumber'' \<or> key = ''pan'' then sanitizePanValue v
     else if is_object v then secureSanitizeObject v
     else v) # sanitizeEntries kvs"
| "sanitizeItems i [] = []"
| "sanitizeItems i (v # xs) =
    (nat_to_string i,
     if nat_to_string i \<in> set PCI_FIELDS then REDACTED
     else if nat_to_string i = ''cardNumber'' \<or> nat_to_string i = ''pan'' then sanitizePanValue v
     else if is_object v then secureSanitizeObject v
     else v) # sanitizeItems (Suc i) xs"

text \<open>
  The inputs on which the first pass masks nothing: no entry under the key \<^verbatim>\<open>pan\<close>
  that the walk reaches holds a string accepted by \<^verbatim>\<open>isValidPan\<close>.
\<close>

fun no_maskable_pan :: "json \<Rightarrow> bool"
  and no_maskable_pan_entries :: "(string \<times> json) list \<Rightarrow> bool"
  and no_maskable_pan_items :: "json list \<Rightarrow> bool"
where
  "no_maskable_pan (JObj kvs) = no_maskable_pan_entries kvs"
| "no_maskable_pan (JArr xs) = no_maskable_pan_items xs"
| "no_maskable_pan JNull = True"
| "no_maskable_pan (JBool b) = True"
| "no_maskable_pan (JNum n) = True"
| "no_maskable_pan (JStr s) = True"
| "no_maskable_pan_entries [] = True"
| "no_maskable_pan_entries ((key, v) # kvs) =
    ((if key \<in> set PCI_FIELDS then True
      else if key = ''pan'' then (case v of JStr s \<Rightarrow> \<not> isValidPan s | _ \<Rightarrow> True)
      else no_maskable_pan v) \<and> no_maskable_pan_entries kvs)"
| "no_maskable_pan_items [] = True"
| "no_maskable_pan_items (v # xs) = (no_maskable_pan v \<and> no_maskable_pan_items xs)"

section \<open>BankingService\<close>

text \<open>
  The \<^verbatim>\<open>Account\<close> entity. The decimal balance is an exact number and \<^verbatim>\<open>metadata\<close>, a nullable
  JSON column, the list of its entries; the two relations, to the account's transactions
  and rules, are not columns and are left out.
\<close>

datatype AccountStatus = ACTIVE | INACTIVE | BLOCKED

record Account =
  id :: string
  accountNumber :: string
  ownerName :: string
  email :: string
  phone :: "string option"
  balance :: rat
  currency :: string
  status :: AccountStatus
  isSweepEnabled :: bool
  sweepAccountId :: "string option"
  metadata :: "(string \<times> json) list option"
  createdAt :: Date
  updatedAt :: Date

type_synonym account_store = "string \<rightharpoonup> Account"

text \<open>
  The calls \<^verbatim>\<open>transferFunds\<close> makes on its query runner inside the \<^verbatim>\<open>try\<close> block, each of
  which may raise; \<open>raises\<close> tells which do. Saved rows become visible only when the
  commit succeeds; a rollback discards them, and the rollback and the release of the query
  runner are taken not to raise. The two \<^verbatim>\<open>findOne\<close> calls return separate objects, also
  when both identifiers name one account.
\<close>

datatype db_op =
  Connect | StartTransaction | FindSource | FindDest | SaveSource | SaveDest | CommitTransaction

definition transferFunds ::
  "(db_op \<Rightarrow> bool) \<Rightarrow> account_store \<Rightarrow> string \<Rightarrow> string \<Rightarrow> rat \<Rightarrow> bool \<times> account_store" where
  "transferFunds raises store fromAccountId toAccountId amount =
    (if raises Connect \<or> raises StartTransaction \<or> raises FindSource then (False, store)
     else (case store fromAccountId of
             None \<Rightarrow> (False, store)
           | Some sourceAccount \<Rightarrow>
               if balance sourceAccount < amount then (False, store)
               else if raises FindDest then (False, store)
               else (case store toAccountId of
                       None \<Rightarrow> (False, store)
                     | Some destAccount \<Rightarrow>
                         (let sourceAccount = sourceAccount\<lparr>balance := balance sourceAccount - amount\<rparr>;
                              destAccount = destAccount\<lparr>balance := balance destAccount + amount\<rparr>
                          in if raises SaveSource then (False, store)
                             else (let saved = store(fromAccountId \<mapsto> sourceAccount)
                                   in if raises SaveDest then (False, store)
                                      else (let saved = saved(toAccountId \<mapsto> destAccount)
                                            in if raises CommitTransaction then (False, store)
                                               else (True, saved)))))))"

text \<open>A query runner none of whose calls raises.\<close>

definition reliable :: "db_op \<Rightarrow> bool" where
  "reliable op = False"


section \<open>DataSecurityService: encryption\<close>

text \<open>
  A buffer is a list of bytes. A string of the language is the list of its UTF-16 code
  units, so that a string with an unpaired surrogate is a value like any other.
\<close>

type_synonym bytes = "8 word list"

type_synonym js_string = "16 word list"

text \<open>An ASCII literal as a string of the language.\<close>

definition js :: "string \<Rightarrow> js_string" where
  "js s = map (\<lambda>c. of_nat (of_char c)) s"

subsection \<open>The encoding utf8\<close>

text \<open>
  Encoding a string as \<^verbatim>\<open>utf8\<close>, as \<^verbatim>\<open>cipher.update(text, 'utf8', 'hex')\<close> does: a code unit
  below 0x80 is one byte, one below 0x800 two bytes, a high surrogate followed by a low
  one the four bytes of the code point of the pair, any other code unit three bytes; a
  surrogate without its partner is encoded as U+FFFD, the bytes EF BF BD. The code units
  and the bytes are taken as numbers here.
\<close>

fun encode_units :: "nat list \<Rightarrow> nat list" where
  "encode_units [] = []"
| "encode_units (u # us) =
    (if u < 0x80 then u # encode_units us
     else if u < 0x800 then (0xC0 + u div 64) # (0x80 + u mod 64) # encode_units us
     else if 0xD800 \<le> u \<and> u < 0xDC00 then
       (case us of
          [] \<Rightarrow> [0xEF, 0xBF, 0xBD]
        | v # vs \<Rightarrow>
            if 0xDC00 \<le> v \<and> v < 0xE000
            then (let cp = 0x10000 + (u - 0xD800) * 1024 + (v - 0xDC00)
                  in (0xF0 + cp div 262144) # (0x80 + cp div 4096 mod 64) #
                     (0x80 + cp div 64 mod 64) # (0x80 + cp mod 64) # encode_units vs)
            else [0xEF, 0xBF, 0xBD] @ encode_units us)
     else if 0xDC00 \<le> u \<and> u < 0xE000 then [0xEF, 0xBF, 0xBD] @ encode_units us
     else (0xE0 + u div 4096) # (0x80 + u div 64 mod 64) # (0x80 + u mod 64) # encode_units us)"

definition utf8_encode :: "js_string \<Rightarrow> bytes" where
  "utf8_encode s = map of_nat (encode_units (map unat s))"

text \<open>
  Decoding bytes as \<^verbatim>\<open>utf8\<close>, as \<^verbatim>\<open>decipher.update(encrypted, 'hex', 'utf8')\<close> and
  \<^verbatim>\<open>decipher.final('utf8')\<close> do between them: the decoder of the encoding standard. Its state
  is the code point so far, the number of continuation bytes still needed, and the
  bounds of the next continuation byte. A byte that cannot start or continue a sequence
  gives U+FFFD, and so does a sequence cut short by the end of the input; a byte that
  fails to continue a sequence is read again as the start of one.
\<close>

definition code_units_of :: "nat \<Rightarrow> nat list" where
  "code_units_of cp =
    (if cp < 0x10000 then [cp]
     else [0xD800 + (cp - 0x10000) div 1024, 0xDC00 + (cp - 0x10000) mod 1024])"

type_synonym decoder = "nat \<times> nat \<times> nat \<times> nat"

definition idle :: decoder where
  "idle = (0, 0, 0x80, 0xBF)"

definition start :: "nat \<Rightarrow> nat list \<times> decoder" where
  "start b =
    (if b < 0x80 then ([b], idle)
     else if 0xC2 \<le> b \<and> b \<le> 0xDF then ([], (b mod 32, 1, 0x80, 0xBF))
     else if 0xE0 \<le> b \<and> b \<le> 0xEF
       then ([], (b mod 16, 2, if b = 0xE0 then 0xA0 else 0x80, if b = 0xED then 0x9F else 0xBF))
     else if 0xF0 \<le> b \<and> b \<le> 0xF4
       then ([], (b mod 8, 3, if b = 0xF0 then 0x90 else 0x80, if b = 0xF4 then 0x8F else 0xBF))
     else ([0xFFFD], idle))"

fun decode_loop :: "decoder \<Rightarrow> nat list \<Rightarrow> nat list" where
  "decode_loop (cp, needed, lower, upper) [] = (if needed = 0 then [] else [0xFFFD])"
| "decode_loop (cp, needed, lower, upper) (b # bs) =
    (if needed = 0 then fst (start b) @ decode_loop (snd (start b)) bs
     else if \<not> (lower \<le> b \<and> b \<le> upper)
       then 0xFFFD # fst (start b) @ decode_loop (snd (start b)) bs
     else if needed = 1 then code_units_of (cp * 64 + b mod 64) @ decode_loop idle bs
     else decode_loop (cp * 64 + b mod 64, needed - 1, 0x80, 0xBF) bs)"

definition utf8_decode :: "bytes \<Rightarrow> js_string" where
  "utf8_decode bs = map of_nat (decode_loop idle (map unat bs))"

text \<open>A string is well formed when every surrogate in it is half of a pair.\<close>

fun well_formed_units :: "nat list \<Rightarrow> bool" where
  "well_formed_units [] = True"
| "well_formed_units (u # us) =
    (if 0xD800 \<le> u \<and> u < 0xDC00
     then (case us of [] \<Rightarrow> False | v # vs \<Rightarrow> 0xDC00 \<le> v \<and> v < 0xE000 \<and> well_formed_units vs)
     else if 0xDC00 \<le> u \<and> u < 0xE000 then False
     else well_formed_units us)"

definition well_formed :: "js_string \<Rightarrow> bool" where
  "well_formed s = well_formed_units (map unat s)"

subsection \<open>The encoding hex and the envelope\<close>

text \<open>\<^verbatim>\<open>toString('hex')\<close>: two lower-case hexadecimal digits a byte.\<close>

definition hex_digit :: "nat \<Rightarrow> 16 word" where
  "hex_digit n = (if n < 10 then of_nat (48 + n) else of_nat (87 + n))"

definition hex_byte :: "8 word \<Rightarrow> js_string" where
  "hex_byte b = [hex_digit (unat b div 16), hex_digit (unat b mod 16)]"

definition to_hex :: "bytes \<Rightarrow> js_string" where
  "to_hex bs = concat (map hex_byte bs)"

text \<open>
  Decoding as \<^verbatim>\<open>hex\<close>: pairs of hexadecimal digits of either case, up to the first pair
  that is not one. \<^verbatim>\<open>Buffer.from(s, 'hex')\<close> is this function; \<^verbatim>\<open>decipher.update(s, 'hex',
  ...)\<close> raises on a string of odd length before it decodes.
\<close>

definition hex_value :: "16 word \<Rightarrow> nat option" where
  "hex_value c =
    (let n = unat c
     in if 48 \<le> n \<and> n \<le> 57 then Some (n - 48)
        else if 97 \<le> n \<and> n \<le> 102 then Some (n - 87)
        else if 65 \<le> n \<and> n \<le> 70 then Some (n - 55)
        else None)"

fun from_hex :: "js_string \<Rightarrow> bytes" where
  "from_hex (a # b # rest) =
    (case (hex_value a, hex_value b) of
       (Some h, Some l) \<Rightarrow> of_nat (16 * h + l) # from_hex rest
     | _ \<Rightarrow> [])"
| "from_hex s = []"

text \<open>\<^verbatim>\<open>split(sep)\<close> with a separator of one code unit.\<close>

fun split_on :: "'a \<Rightarrow> 'a list \<Rightarrow> 'a list list" where
  "split_on sep [] = [] # []"
| "split_on sep (c # cs) =
    (if c = sep then [] # split_on sep cs
     else (case split_on sep cs of
             part # parts \<Rightarrow> (c # part) # parts
           | [] \<Rightarrow> [c] # []))"

definition colon :: "16 word" where
  "colon = 58"

text \<open>
  The cipher \<^verbatim>\<open>aes-256-cbc\<close> of the runtime's \<^verbatim>\<open>crypto\<close> module. \<open>encipher\<close> is
  \<^verbatim>\<open>createCipheriv\<close> with \<^verbatim>\<open>update\<close> and \<^verbatim>\<open>final\<close>, from the key, the initialisation vector
  and the input; the key is checked to be 32 bytes when the service is constructed and
  the vector is 16 random bytes, so it does not raise. \<open>createDecipheriv\<close> raises on a key
  or vector it does not accept, and otherwise gives the decipher, whose \<^verbatim>\<open>update\<close> and
  \<^verbatim>\<open>final\<close> together give the plain bytes or raise.
\<close>

record Crypto =
  encipher :: "bytes \<Rightarrow> bytes \<Rightarrow> bytes \<Rightarrow> bytes"
  createDecipheriv :: "bytes \<Rightarrow> bytes \<Rightarrow> error + (bytes \<Rightarrow> error + bytes)"

text \<open>\<^verbatim>\<open>encrypt\<close>, with the 16 random bytes of the vector as an argument.\<close>

definition encrypt :: "Crypto \<Rightarrow> bytes \<Rightarrow> bytes \<Rightarrow> js_string \<Rightarrow> js_string" where
  "encrypt crypto ENCRYPTION_KEY iv plain =
    (let encrypted = to_hex (encipher crypto ENCRYPTION_KEY iv (utf8_encode plain))
     in to_hex iv @ [colon] @ encrypted)"

definition decrypt :: "Crypto \<Rightarrow> bytes \<Rightarrow> js_string \<Rightarrow> error + js_string" where
  "decrypt crypto ENCRYPTION_KEY encryptedText =
    (let parts = split_on colon encryptedText
     in if length parts \<noteq> 2 then Inl (Error ''Invalid encrypted data format'')
        else (let iv = from_hex (parts ! 0);
                  encrypted = parts ! 1
              in case createDecipheriv crypto ENCRYPTION_KEY iv of
                   Inl e \<Rightarrow> Inl e
                 | Inr decipher \<Rightarrow>
                     if odd (length encrypted) then Inl TypeError
                     else (case decipher (from_hex encrypted) of
                             Inl e \<Rightarrow> Inl e
                           | Inr decrypted \<Rightarrow> Inr (utf8_decode decrypted))))"

section \<open>RuleEngineService: data\<close>

text \<open>
  The entities the rule engine reads. An optional column is an \<open>option\<close>; the decimal and
  integer columns are exact numbers.
\<close>

record EnrichedData =
  merchantName :: string
  merchantCategory :: string
  merchantCategoryCode :: string
  location :: string
  countryCode :: string

record Transaction =
  transactionId :: string
  accountId :: string
  amount :: rat
  currency :: string
  merchantName :: string
  merchantId :: "string option"
  merchantCategoryCode :: "string option"
  merchantCategory :: "string option"
  location :: "string option"
  countryCode :: "string option"
  paymentToken :: "string option"
  paymentMethod :: "string option"
  cardBrand :: "string option"
  cardLast4 :: "string option"
  cardExpiryMonth :: "int option"
  cardExpiryYear :: "int option"
  cardFingerprint :: "string option"
  enrichedData :: "EnrichedData option"
  createdAt :: Date

datatype RuleAction = APPROVE | DECLINE | REVIEW | SWEEP | STEP_UP_AUTH

record Rule =
  id :: string
  name :: string
  action :: RuleAction
  priority :: int
  conditions :: "(string \<times> json) list option"

text \<open>
  \<^verbatim>\<open>RuleResult\<close>. The field \<^verbatim>\<open>evaluationTimeMs\<close>, a difference of two clock readings, is left
  out.
\<close>

record RuleResult =
  ruleId :: string
  ruleName :: string
  action :: RuleAction
  matched :: bool
  conditions :: "(string \<times> json) list option"

text \<open>The object \<^verbatim>\<open>prepareTransactionData\<close> returns (its \<^verbatim>\<open>timestamp\<close> is \<open>createdAt\<close>).\<close>

record TransactionData =
  transactionId :: string
  accountId :: string
  amount :: rat
  currency :: string
  merchantName :: string
  merchantId :: "string option"
  merchantCategory :: "string option"
  merchantCategoryCode :: "string option"
  location :: "string option"
  countryCode :: "string option"
  paymentToken :: "string option"
  paymentMethod :: "string option"
  cardBrand :: "string option"
  cardLast4 :: "string option"
  cardExpiryMonth :: "int option"
  cardExpiryYear :: "int option"
  cardFingerprint :: "string option"
  timestamp :: Date
  dayOfWeek :: nat
  hourOfDay :: nat
  isEnriched :: bool

text \<open>
  What the engine takes from outside the repository: the string metrics of the libraries
  \<^verbatim>\<open>natural\<close> and \<^verbatim>\<open>string-similarity\<close>, the language's conversion of a string, array or
  object to a number (\<open>None\<close> is NaN), and the clock.
\<close>

record Runtime =
  LevenshteinDistance :: "string \<Rightarrow> string \<Rightarrow> nat"
  compareTwoStrings :: "string \<Rightarrow> string \<Rightarrow> rat"
  metaphone :: "string \<Rightarrow> string"
  ToNumber :: "json \<Rightarrow> rat option"
  currentYear :: int
  currentMonth :: int
  now :: int

section \<open>RuleEngineService: strings\<close>

definition is_upper :: "char \<Rightarrow> bool" where
  "is_upper c = (65 \<le> (of_char c :: nat) \<and> (of_char c :: nat) \<le> 90)"

definition is_lower :: "char \<Rightarrow> bool" where
  "is_lower c = (97 \<le> (of_char c :: nat) \<and> (of_char c :: nat) \<le> 122)"

definition is_alpha :: "char \<Rightarrow> bool" where
  "is_alpha c = (is_upper c \<or> is_lower c)"

text \<open>The classes \<^verbatim>\<open>\w\<close> and \<^verbatim>\<open>\s\<close> of a regular expression, on ASCII.\<close>

definition is_word :: "char \<Rightarrow> bool" where
  "is_word c = (is_alpha c \<or> is_digit c \<or> c = CHR ''_'')"

definition is_space :: "char \<Rightarrow> bool" where
  "is_space c = ((of_char c :: nat) \<in> {9, 10, 11, 12, 13, 32})"

definition to_lower :: "char \<Rightarrow> char" where
  "to_lower c = (if is_upper c then char_of ((of_char c :: nat) + 32) else c)"

definition toLowerCase :: "string \<Rightarrow> string" where
  "toLowerCase s = map to_lower s"

text \<open>Truthiness of an optional string: present and not empty.\<close>

definition truthy_str :: "string option \<Rightarrow> bool" where
  "truthy_str s = (case s of None \<Rightarrow> False | Some t \<Rightarrow> t \<noteq> [])"

text \<open>\<^verbatim>\<open>a || b\<close> on a string and an optional string.\<close>

definition or_else :: "string \<Rightarrow> string option \<Rightarrow> string option" where
  "or_else a b = (if a \<noteq> [] then Some a else b)"

text \<open>
  \<^verbatim>\<open>stringMatch\<close> and \<^verbatim>\<open>stringContains\<close>: the expected value comes from a rule's conditions
  and is of any type; a value that is no string has no \<^verbatim>\<open>toLowerCase\<close>.
\<close>

definition stringMatch :: "string option \<Rightarrow> json \<Rightarrow> error + bool" where
  "stringMatch actual expected =
    (if \<not> truthy_str actual then Inr False
     else (case expected of
             JStr e \<Rightarrow> Inr (toLowerCase (the actual) = toLowerCase e)
           | _ \<Rightarrow> Inl TypeError))"

fun includes_at :: "string \<Rightarrow> string \<Rightarrow> bool" where
  "includes_at [] needle = (needle = [])"
| "includes_at (c # cs) needle = (take (length needle) (c # cs) = needle \<or> includes_at cs needle)"

definition stringContains :: "string option \<Rightarrow> json \<Rightarrow> error + bool" where
  "stringContains actual expected =
    (if \<not> truthy_str actual then Inr False
     else (case expected of
             JStr e \<Rightarrow> Inr (includes_at (toLowerCase (the actual)) (toLowerCase e))
           | _ \<Rightarrow> Inl TypeError))"

subsection \<open>cleanMerchantName\<close>

text \<open>
  Each replacement of \<^verbatim>\<open>cleanMerchantName\<close> is one function, in the order of the chain.
  First the payment prefixes, \<^verbatim>\<open>/^sq\*|^sq |^SQ\*|^SQ |^txn\*|^amzn\*|^pmt\*|^pp\*|^pypl\*/i\<close>:
  the first alternative that is a prefix, letters compared without case, is removed.
\<close>

definition payment_prefixes :: "string list" where
  "payment_prefixes =
    [''sq*'', ''sq '', ''SQ*'', ''SQ '', ''txn*'', ''amzn*'', ''pmt*'', ''pp*'', ''pypl*'']"

definition ci_prefix :: "string \<Rightarrow> string \<Rightarrow> bool" where
  "ci_prefix p s = (length p \<le> length s \<and> toLowerCase (take (length p) s) = toLowerCase p)"

fun strip_payment_prefix :: "string list \<Rightarrow> string \<Rightarrow> string" where
  "strip_payment_prefix [] s = s"
| "strip_payment_prefix (p # ps) s =
    (if ci_prefix p s then drop (length p) s else strip_payment_prefix ps s)"

text \<open>\<^verbatim>\<open>/^\d+\s+/g\<close>: leading digits followed by white space.\<close>

definition strip_leading_numbers :: "string \<Rightarrow> string" where
  "strip_leading_numbers s =
    (let rest = dropWhile is_digit s
     in if takeWhile is_digit s \<noteq> [] \<and> takeWhile is_space rest \<noteq> []
        then dropWhile is_space rest else s)"

text \<open>
  \<^verbatim>\<open>/\bINC\b|\bLLC\b|\bLTD\b|\bCORP\b|\bCO\b/gi\<close>: every occurrence that stands between two
  word boundaries is removed. \<open>company_type_at\<close> is the length of the match that starts
  at the head of the rest of the string, given whether the character before it is a word
  character; \<open>strip_company_types\<close> scans from the left, \<open>skip\<close> counting the characters of
  a match still to drop.
\<close>

definition company_types :: "string list" where
  "company_types = [''INC'', ''LLC'', ''LTD'', ''CORP'', ''CO'']"

definition boundary_after :: "string \<Rightarrow> string \<Rightarrow> bool" where
  "boundary_after w s = (case drop (length w) s of [] \<Rightarrow> True | c # cs \<Rightarrow> \<not> is_word c)"

fun first_company_type :: "string list \<Rightarrow> string \<Rightarrow> nat option" where
  "first_company_type [] s = None"
| "first_company_type (w # ws) s =
    (if ci_prefix w s \<and> boundary_after w s then Some (length w) else first_company_type ws s)"

definition company_type_at :: "bool \<Rightarrow> string \<Rightarrow> nat option" where
  "company_type_at prev_word s = (if prev_word then None else first_company_type company_types s)"

fun strip_company_types :: "nat \<Rightarrow> bool \<Rightarrow> string \<Rightarrow> string" where
  "strip_company_types skip prev_word [] = []"
| "strip_company_types skip prev_word (c # cs) =
    (if skip > 0 then strip_company_types (skip - 1) (is_word c) cs
     else (case company_type_at prev_word (c # cs) of
             Some n \<Rightarrow> strip_company_types (n - 1) (is_word c) cs
           | None \<Rightarrow> c # strip_company_types 0 (is_word c) cs))"

text \<open>\<^verbatim>\<open>/\d{4,}$/g\<close>: a run of four or more digits that ends the string.\<close>

definition strip_trailing_numbers :: "string \<Rightarrow> string" where
  "strip_trailing_numbers s =
    (let run = takeWhile is_digit (rev s)
     in if length run \<ge> 4 then take (length s - length run) s else s)"

text \<open>
  \<^verbatim>\<open>/\-\d+[a-z]*$/i\<close>: the leftmost hyphen followed, up to the end of the string, by digits
  and then letters only; the string is cut there.
\<close>

definition digits_then_letters :: "string \<Rightarrow> bool" where
  "digits_then_letters s = (takeWhile is_digit s \<noteq> [] \<and> list_all is_alpha (dropWhile is_digit s))"

fun strip_dash_suffix :: "string \<Rightarrow> string" where
  "strip_dash_suffix [] = []"
| "strip_dash_suffix (c # cs) =
    (if c = CHR ''-'' \<and> digits_then_letters cs then [] else c # strip_dash_suffix cs)"

text \<open>\<^verbatim>\<open>/[^\w\s]/g\<close> to a space, then \<^verbatim>\<open>/\s+/g\<close> to one space, then \<^verbatim>\<open>trim()\<close>.\<close>

definition punctuation_to_space :: "string \<Rightarrow> string" where
  "punctuation_to_space s = map (\<lambda>c. if is_word c \<or> is_space c then c else CHR '' '') s"

fun collapse_spaces :: "bool \<Rightarrow> string \<Rightarrow> string" where
  "collapse_spaces in_run [] = []"
| "collapse_spaces in_run (c # cs) =
    (if is_space c then (if in_run then collapse_spaces True cs else CHR '' '' # collapse_spaces True cs)
     else c # collapse_spaces False cs)"

definition trim :: "string \<Rightarrow> string" where
  "trim s = rev (dropWhile is_space (rev (dropWhile is_space s)))"

definition cleanMerchantName :: "string \<Rightarrow> string" where
  "cleanMerchantName raw =
    (if raw = [] then []
     else (let cleaned = strip_payment_prefix payment_prefixes raw;
               cleaned = strip_leading_numbers cleaned;
               cleaned = strip_company_types 0 False cleaned;
               cleaned = strip_trailing_numbers cleaned;
               cleaned = strip_dash_suffix cleaned;
               cleaned = punctuation_to_space cleaned;
               cleaned = collapse_spaces False cleaned
           in trim cleaned))"

section \<open>RuleEngineService: rule evaluation\<close>

definition CONFIDENCE_THRESHOLD :: rat where
  "CONFIDENCE_THRESHOLD = 7 / 10"

text \<open>\<^verbatim>\<open>DEFAULT_WEIGHTS\<close>\<close>

definition weight_levenshtein :: rat where
  "weight_levenshtein = 4 / 10"

definition weight_jaroWinkler :: rat where
  "weight_jaroWinkler = 4 / 10"

definition weight_phonetic :: rat where
  "weight_phonetic = 2 / 10"

text \<open>
  \<^verbatim>\<open>prepareTransactionData\<close>: \<^verbatim>\<open>enrichedData || {}\<close> is the empty enrichment when there is
  none, and an enriched field replaces the raw one when it is not empty. The enrichment
  declares no \<^verbatim>\<open>merchantId\<close>, so the raw one is kept.
\<close>

definition prepareTransactionData :: "Transaction \<Rightarrow> TransactionData" where
  "prepareTransactionData transaction =
    (let enriched = (case enrichedData transaction of
                       None \<Rightarrow> \<lparr>EnrichedData.merchantName = [], merchantCategory = [],
                                 merchantCategoryCode = [], location = [], countryCode = []\<rparr>
                     | Some e \<Rightarrow> e)
     in \<lparr>TransactionData.transactionId = Transaction.transactionId transaction,
         accountId = Transaction.accountId transaction,
         amount = Transaction.amount transaction,
         currency = Transaction.currency transaction,
         merchantName = (if EnrichedData.merchantName enriched \<noteq> []
                         then EnrichedData.merchantName enriched
                         else Transaction.merchantName transaction),
         merchantId = Transaction.merchantId transaction,
         merchantCategory =
           or_else (EnrichedData.merchantCategory enriched) (Transaction.merchantCategory transaction),
         merchantCategoryCode =
           or_else (EnrichedData.merchantCategoryCode enriched)
             (Transaction.merchantCategoryCode transaction),
         location = or_else (EnrichedData.location enriched) (Transaction.location transaction),
         countryCode =
           or_else (EnrichedData.countryCode enriched) (Transaction.countryCode transaction),
         paymentToken = Transaction.paymentToken transaction,
         paymentMethod = Transaction.paymentMethod transaction,
         cardBrand = Transaction.cardBrand transaction,
         cardLast4 = Transaction.cardLast4 transaction,
         cardExpiryMonth = Transaction.cardExpiryMonth transaction,
         cardExpiryYear = Transaction.cardExpiryYear transaction,
         cardFingerprint = Transaction.cardFingerprint transaction,
         timestamp = Transaction.createdAt transaction,
         dayOfWeek = getDay (Transaction.createdAt transaction),
         hourOfDay = getHours (Transaction.createdAt transaction),
         isEnriched = (enrichedData transaction \<noteq> None)\<rparr>)"

definition getLevenshteinSimilarity :: "Runtime \<Rightarrow> string \<Rightarrow> string \<Rightarrow> rat" where
  "getLevenshteinSimilarity rt s1 s2 =
    (let distance = LevenshteinDistance rt (toLowerCase s1) (toLowerCase s2);
         maxLength = max (length s1) (length s2)
     in if maxLength > 0 then 1 - of_nat distance / of_nat maxLength else 1)"

definition getJaroWinklerSimilarity :: "Runtime \<Rightarrow> string \<Rightarrow> string \<Rightarrow> rat" where
  "getJaroWinklerSimilarity rt s1 s2 = compareTwoStrings rt (toLowerCase s1) (toLowerCase s2)"

definition getPhoneticSimilarity :: "Runtime \<Rightarrow> string \<Rightarrow> string \<Rightarrow> rat" where
  "getPhoneticSimilarity rt s1 s2 =
    (let s1Phonetic = metaphone rt s1;
         s2Phonetic = metaphone rt s2;
         phoneticDistance = LevenshteinDistance rt s1Phonetic s2Phonetic;
         maxLength = max (length s1Phonetic) (length s2Phonetic)
     in if maxLength > 0 then 1 - of_nat phoneticDistance / of_nat maxLength else 1)"

text \<open>
  \<^verbatim>\<open>computeConfidenceScore\<close>. The expected string is a condition value of any type: a
  falsy one gives the score 0, and one that is truthy and no string raises inside
  \<^verbatim>\<open>cleanMerchantName\<close>, where it has no \<^verbatim>\<open>replace\<close>.
\<close>

definition computeConfidenceScore :: "Runtime \<Rightarrow> string \<Rightarrow> json \<Rightarrow> error + rat" where
  "computeConfidenceScore rt actual expected =
    (if actual = [] \<or> falsy expected then Inr 0
     else (case expected of
             JStr e \<Rightarrow>
               (let cleanActual = cleanMerchantName actual;
                    cleanExpected = cleanMerchantName e
                in if length cleanActual < 3 \<or> length cleanExpected < 3
                   then Inr (if cleanActual = cleanExpected then 1 else 0)
                   else (let levenshteinSimilarity = getLevenshteinSimilarity rt cleanActual cleanExpected;
                             jaroWinklerSimilarity = getJaroWinklerSimilarity rt cleanActual cleanExpected;
                             phoneticSimilarity = getPhoneticSimilarity rt cleanActual cleanExpected
                         in Inr (levenshteinSimilarity * weight_levenshtein +
                                 jaroWinklerSimilarity * weight_jaroWinkler +
                                 phoneticSimilarity * weight_phonetic)))
           | _ \<Rightarrow> Inl TypeError))"

definition smartStringMatch :: "Runtime \<Rightarrow> string \<Rightarrow> json \<Rightarrow> error + bool" where
  "smartStringMatch rt actual expected =
    (if actual = [] then Inr False
     else (case computeConfidenceScore rt actual expected of
             Inl e \<Rightarrow> Inl e
           | Inr confidenceScore \<Rightarrow> Inr (confidenceScore \<ge> CONFIDENCE_THRESHOLD)))"

text \<open>
  The comparisons \<^verbatim>\<open>n > v\<close>, \<^verbatim>\<open>n < v\<close>, \<^verbatim>\<open>n >= v\<close> and \<^verbatim>\<open>n <= v\<close> of a number with a
  condition value: the value is converted to a number, and every comparison with NaN is
  false.
\<close>

definition to_number :: "Runtime \<Rightarrow> json \<Rightarrow> rat option" where
  "to_number rt v =
    (case v of
       JNum n \<Rightarrow> Some n
     | JBool b \<Rightarrow> Some (if b then 1 else 0)
     | JNull \<Rightarrow> Some 0
     | _ \<Rightarrow> ToNumber rt v)"

definition js_compare :: "Runtime \<Rightarrow> (rat \<Rightarrow> rat \<Rightarrow> bool) \<Rightarrow> rat \<Rightarrow> json \<Rightarrow> bool" where
  "js_compare rt rel n v = (case to_number rt v of None \<Rightarrow> False | Some m \<Rightarrow> rel n m)"

text \<open>\<^verbatim>\<open>conditionValue.some(code => this.stringMatch(countryCode, code))\<close>\<close>

fun some_stringMatch :: "string option \<Rightarrow> json list \<Rightarrow> error + bool" where
  "some_stringMatch actual [] = Inr False"
| "some_stringMatch actual (code # codes) =
    (case stringMatch actual code of
       Inl e \<Rightarrow> Inl e
     | Inr m \<Rightarrow> if m then Inr True else some_stringMatch actual codes)"

definition evaluateCondition :: "Runtime \<Rightarrow> string \<Rightarrow> json \<Rightarrow> TransactionData \<Rightarrow> error + bool" where
  "evaluateCondition rt conditionType conditionValue transactionData =
    (if conditionType = ''amount_greater_than''
       then Inr (js_compare rt (>) (amount transactionData) conditionValue)
     else if conditionType = ''amount_less_than''
       then Inr (js_compare rt (<) (amount transactionData) conditionValue)
     else if conditionType = ''currency_equals''
       then Inr (conditionValue = JStr (currency transactionData))
     else if conditionType = ''merchant_name_equals''
       then (if \<not> isEnriched transactionData
             then smartStringMatch rt (merchantName transactionData) conditionValue
             else stringMatch (Some (merchantName transactionData)) conditionValue)
     else if conditionType = ''merchant_name_contains''
       then (if \<not> isEnriched transactionData
             then (case computeConfidenceScore rt (merchantName transactionData) conditionValue of
                     Inl e \<Rightarrow> Inl e
                   | Inr confidenceScore \<Rightarrow> Inr (confidenceScore \<ge> CONFIDENCE_THRESHOLD * (8 / 10)))
             else stringContains (Some (merchantName transactionData)) conditionValue)
     else if conditionType = ''merchant_category_equals''
       then stringMatch (merchantCategory transactionData) conditionValue
     else if conditionType = ''merchant_category_code_equals''
       then stringMatch (merchantCategoryCode transactionData) conditionValue
     else if conditionType = ''country_code_equals''
       then stringMatch (countryCode transactionData) conditionValue
     else if conditionType = ''country_code_in''
       then (case conditionValue of
               JArr codes \<Rightarrow> some_stringMatch (countryCode transactionData) codes
             | _ \<Rightarrow> Inr False)
     else if conditionType = ''day_of_week_equals''
       then Inr (conditionValue = JNum (of_nat (dayOfWeek transactionData)))
     else if conditionType = ''day_of_week_in''
       then (case conditionValue of
               JArr days \<Rightarrow> Inr (JNum (of_nat (dayOfWeek transactionData)) \<in> set days)
             | _ \<Rightarrow> Inr False)
     else if conditionType = ''hour_of_day_between''
       then (case conditionValue of
               JArr [lo, hi] \<Rightarrow>
                 Inr (js_compare rt (\<ge>) (of_nat (hourOfDay transactionData)) lo \<and>
                      js_compare rt (\<le>) (of_nat (hourOfDay transactionData)) hi)
             | _ \<Rightarrow> Inr False)
     else Inr False)"

subsection \<open>evaluateCardRule\<close>

text \<open>
  A property read \<^verbatim>\<open>cardConditions.key\<close> (\<open>None\<close> is \<^verbatim>\<open>undefined\<close>: the key is missing, or
  the value read from is no object) and its truthiness.
\<close>

definition get_prop :: "json \<Rightarrow> string \<Rightarrow> json option" where
  "get_prop v key = (case v of JObj kvs \<Rightarrow> map_of kvs key | _ \<Rightarrow> None)"

definition truthy :: "json option \<Rightarrow> bool" where
  "truthy v = (case v of None \<Rightarrow> False | Some w \<Rightarrow> \<not> falsy w)"

definition as_array :: "json \<Rightarrow> json list" where
  "as_array v = (case v of JArr xs \<Rightarrow> xs | _ \<Rightarrow> [v])"

text \<open>\<^verbatim>\<open>brands.some(brand => brand.toLowerCase() === cardBrand.toLowerCase())\<close>\<close>

fun some_brand :: "string \<Rightarrow> json list \<Rightarrow> error + bool" where
  "some_brand brandOfCard [] = Inr False"
| "some_brand brandOfCard (brand # brands) =
    (case brand of
       JStr b \<Rightarrow> if toLowerCase b = toLowerCase brandOfCard then Inr True
                 else some_brand brandOfCard brands
     | _ \<Rightarrow> Inl TypeError)"

text \<open>
  The two early returns and the update of \<^verbatim>\<open>isMatch\<close> that follow each of the four checks:
  \<open>Inl\<close> is the value returned at once, \<open>Inr\<close> the new \<^verbatim>\<open>isMatch\<close>.
\<close>

definition combine :: "json \<Rightarrow> bool \<Rightarrow> bool \<Rightarrow> bool + bool" where
  "combine logicalOperator isMatch m =
    (if logicalOperator = JStr ''or'' \<and> m then Inl True
     else if logicalOperator = JStr ''and'' \<and> \<not> m then Inl False
     else Inr (isMatch \<or> m))"

definition evaluateCardRule :: "Runtime \<Rightarrow> json \<Rightarrow> TransactionData \<Rightarrow> error + bool" where
  "evaluateCardRule rt cardConditions transactionData =
    (let isMatch = False;
         logicalOperator = (if truthy (get_prop cardConditions ''operator'')
                            then the (get_prop cardConditions ''operator'') else JStr ''or'');
         brandStep =
           (if truthy (get_prop cardConditions ''brands'') \<and> truthy_str (cardBrand transactionData)
            then (case some_brand (the (cardBrand transactionData))
                         (as_array (the (get_prop cardConditions ''brands''))) of
                    Inl e \<Rightarrow> Inl e
                  | Inr brandMatch \<Rightarrow> Inr (combine logicalOperator isMatch brandMatch))
            else Inr (Inr isMatch))
     in case brandStep of
          Inl e \<Rightarrow> Inl e
        | Inr (Inl returned) \<Rightarrow> Inr returned
        | Inr (Inr isMatch) \<Rightarrow>
     (let tokenStep =
           (if truthy (get_prop cardConditions ''highRiskTokens'') \<and>
               truthy_str (paymentToken transactionData)
            then (let tokens = as_array (the (get_prop cardConditions ''highRiskTokens''));
                      tokenMatch = (JStr (the (paymentToken transactionData)) \<in> set tokens)
                  in combine logicalOperator isMatch tokenMatch)
            else Inr isMatch)
      in case tokenStep of
           Inl returned \<Rightarrow> Inr returned
         | Inr isMatch \<Rightarrow>
     (let expiryStep =
           (if truthy (get_prop cardConditions ''requireValidExpiry'') \<and>
               (cardExpiryMonth transactionData \<noteq> None \<and> cardExpiryMonth transactionData \<noteq> Some 0 \<and>
                cardExpiryYear transactionData \<noteq> None \<and> cardExpiryYear transactionData \<noteq> Some 0)
            then (let expiryYear = the (cardExpiryYear transactionData);
                      expiryMonth = the (cardExpiryMonth transactionData);
                      isExpired = (expiryYear < currentYear rt \<or>
                                   (expiryYear = currentYear rt \<and> expiryMonth < currentMonth rt));
                      expiryValid = (\<not> isExpired)
                  in combine logicalOperator isMatch expiryValid)
            else Inr isMatch)
      in case expiryStep of
           Inl returned \<Rightarrow> Inr returned
         | Inr isMatch \<Rightarrow>
     (let frequencyStep =
           (if truthy (get_prop cardConditions ''fingerprintFrequency'') \<and>
               truthy_str (cardFingerprint transactionData)
            then (let passesFrequencyCheck = True
                  in combine logicalOperator isMatch passesFrequencyCheck)
            else Inr isMatch)
      in case frequencyStep of
           Inl returned \<Rightarrow> Inr returned
         | Inr isMatch \<Rightarrow> Inr isMatch))))"

subsection \<open>evaluateRule and evaluateRules\<close>

text \<open>The loop of \<^verbatim>\<open>evaluateRule\<close> over the entries of the conditions, stopping at the first
  condition that is not met or raises.\<close>

fun evaluateConditions ::
  "Runtime \<Rightarrow> (string \<times> json) list \<Rightarrow> TransactionData \<Rightarrow> error + bool" where
  "evaluateConditions rt [] txData = Inr True"
| "evaluateConditions rt ((conditionType, conditionValue) # rest) txData =
    (case evaluateCondition rt conditionType conditionValue txData of
       Inl e \<Rightarrow> Inl e
     | Inr matchResult \<Rightarrow>
         if \<not> matchResult then Inr False else evaluateConditions rt rest txData)"

definition evaluateRule :: "Runtime \<Rightarrow> Transaction \<Rightarrow> Rule \<Rightarrow> error + bool" where
  "evaluateRule rt transaction rule =
    (case Rule.conditions rule of
       None \<Rightarrow> Inr False
     | Some conds \<Rightarrow>
         if length conds = 0 then Inr False
         else (let txData = prepareTransactionData transaction
               in case evaluateConditions rt conds txData of
                    Inl e \<Rightarrow> Inl e
                  | Inr allMatched \<Rightarrow>
                      if \<not> allMatched then Inr False
                      else if paymentMethod txData = Some ''card'' \<and> truthy (map_of conds ''card'')
                      then (case evaluateCardRule rt (the (map_of conds ''card'')) txData of
                              Inl e \<Rightarrow> Inl e
                            | Inr cardMatch \<Rightarrow> if cardMatch then Inr True else Inr True)
                      else Inr True))"

text \<open>
  \<^verbatim>\<open>evaluateRules\<close>: the rules are sorted by priority (the sort is stable), and the loop
  pushes one result per rule, the \<^verbatim>\<open>catch\<close> pushing a result that did not match.
\<close>

definition result_of :: "Rule \<Rightarrow> bool \<Rightarrow> RuleResult" where
  "result_of rule m =
    \<lparr>ruleId = Rule.id rule, ruleName = name rule, action = Rule.action rule, matched = m,
     conditions = Rule.conditions rule\<rparr>"

fun evaluateRules_loop ::
  "Runtime \<Rightarrow> Transaction \<Rightarrow> Rule list \<Rightarrow> RuleResult list \<Rightarrow> RuleResult list" where
  "evaluateRules_loop rt transaction [] results = results"
| "evaluateRules_loop rt transaction (rule # sortedRules) results =
    (case evaluateRule rt transaction rule of
       Inr m \<Rightarrow> evaluateRules_loop rt transaction sortedRules (results @ [result_of rule m])
     | Inl e \<Rightarrow> evaluateRules_loop rt transaction sortedRules (results @ [result_of rule False]))"

definition evaluateRules :: "Runtime \<Rightarrow> Transaction \<Rightarrow> Rule list \<Rightarrow> RuleResult list" where
  "evaluateRules rt transaction rules =
    (let results = [];
         sortedRules = sort_key priority rules
     in evaluateRules_loop rt transaction sortedRules results)"

section \<open>RuleEngineService: behavioural patterns\<close>

text \<open>
  The transaction repository, as the queries the detector runs on it: the most recent
  transactions of an account up to a limit, and the number of transactions created
  after an instant with a given card fingerprint or on a given account. Each query may
  raise.
\<close>

record TransactionRepository =
  find_recent :: "string \<Rightarrow> nat \<Rightarrow> error + Transaction list"
  count_by_card :: "string \<Rightarrow> int \<Rightarrow> error + nat"
  count_by_account :: "string \<Rightarrow> int \<Rightarrow> error + nat"

definition getAccountTransactionHistory ::
  "TransactionRepository \<Rightarrow> string \<Rightarrow> nat \<Rightarrow> error + Transaction list" where
  "getAccountTransactionHistory txRepo acct limit = find_recent txRepo acct limit"

text \<open>
  What the detector takes from the language: the arithmetic of its numbers, which are
  IEEE doubles, so that every operation rounds and the square root is the library's, and
  \<^verbatim>\<open>JSON.parse\<close> of a value (\<open>None\<close> when it raises). A number is the rational it denotes.
\<close>

record Platform =
  fadd :: "rat \<Rightarrow> rat \<Rightarrow> rat"
  fsub :: "rat \<Rightarrow> rat \<Rightarrow> rat"
  fmul :: "rat \<Rightarrow> rat \<Rightarrow> rat"
  fdiv :: "rat \<Rightarrow> rat \<Rightarrow> rat"
  fsqrt :: "rat \<Rightarrow> rat"
  JSON_parse :: "json \<Rightarrow> json option"

text \<open>The double that the literal \<^verbatim>\<open>0.1\<close> denotes.\<close>

definition double_tenth :: rat where
  "double_tenth = 3602879701896397 / 36028797018963968"

text \<open>A result of a behavioural check: action \<^verbatim>\<open>review\<close>, matched, with the figures of
  the check as its \<open>conditions\<close>.\<close>

definition behavioral_result :: "string \<Rightarrow> string \<Rightarrow> (string \<times> json) list \<Rightarrow> RuleResult" where
  "behavioral_result rid rname conds =
    \<lparr>ruleId = rid, ruleName = rname, action = REVIEW, matched = True, conditions = Some conds\<rparr>"

definition detectNewPaymentMethod :: "Transaction \<Rightarrow> Transaction list \<Rightarrow> RuleResult option" where
  "detectNewPaymentMethod transaction history =
    (if \<not> truthy_str (Transaction.paymentToken transaction) \<and>
        \<not> truthy_str (Transaction.cardFingerprint transaction) then None
     else (let isNewCard = (\<not> list_ex (\<lambda>tx.
                 (truthy_str (Transaction.cardFingerprint transaction) \<and>
                  Transaction.cardFingerprint tx = Transaction.cardFingerprint transaction) \<or>
                 (truthy_str (Transaction.paymentToken transaction) \<and>
                  Transaction.paymentToken tx = Transaction.paymentToken transaction)) history)
           in if isNewCard
              then (let hasCardHistory =
                          list_ex (\<lambda>tx. Transaction.paymentMethod tx = Some ''card'') history
                    in if hasCardHistory
                       then Some (behavioral_result ''behavioral_new_card''
                                    ''New Payment Method Detection''
                                    [(''isNewCard'', JBool True), (''hasCardHistory'', JBool True)])
                       else None)
              else None))"

text \<open>
  \<^verbatim>\<open>detectAmountAnomaly\<close>. \<^verbatim>\<open>stdDev || 1\<close> is 1 when the standard deviation is 0.
\<close>

definition detectAmountAnomaly ::
  "Platform \<Rightarrow> Transaction \<Rightarrow> Transaction list \<Rightarrow> RuleResult option" where
  "detectAmountAnomaly pf transaction history =
    (if length history < 3 then None
     else (let amounts = map Transaction.amount history;
               average = fdiv pf (foldl (fadd pf) 0 amounts) (of_nat (length amounts));
               squareDiffs = map (\<lambda>a. (let diff = fsub pf a average in fmul pf diff diff)) amounts;
               avgSquareDiff =
                 fdiv pf (foldl (fadd pf) 0 squareDiffs) (of_nat (length squareDiffs));
               stdDev = fsqrt pf avgSquareDiff;
               zScore = fdiv pf (fsub pf (Transaction.amount transaction) average)
                          (if stdDev = 0 then 1 else stdDev)
           in if zScore > 3
              then Some (behavioral_result ''behavioral_amount_anomaly''
                           ''Transaction Amount Anomaly''
                           [(''zScore'', JNum zScore),
                            (''average'', JNum average),
                            (''stdDev'', JNum stdDev),
                            (''transactionAmount'', JNum (Transaction.amount transaction))])
              else None))"

text \<open>The elements of a list without repetition, in the order of their first occurrence:
  the order in which a \<^verbatim>\<open>Set\<close> and an object's string keys are enumerated.\<close>

definition first_occurrences :: "'a list \<Rightarrow> 'a list" where
  "first_occurrences xs = rev (remdups (rev xs))"

text \<open>The values of an optional column that are truthy, over a history.\<close>

definition truthy_values :: "(Transaction \<Rightarrow> string option) \<Rightarrow> Transaction list \<Rightarrow> string list" where
  "truthy_values column history = map the (filter truthy_str (map column history))"

definition detectMerchantCategoryAnomaly ::
  "Transaction \<Rightarrow> Transaction list \<Rightarrow> RuleResult option" where
  "detectMerchantCategoryAnomaly transaction history =
    (if \<not> truthy_str (Transaction.merchantCategoryCode transaction) \<or> length history < 5 then None
     else (let usedCategories = first_occurrences (truthy_values Transaction.merchantCategoryCode history)
           in if the (Transaction.merchantCategoryCode transaction) \<notin> set usedCategories
              then Some (behavioral_result ''behavioral_new_merchant_category''
                           ''New Merchant Category''
                           [(''newCategory'', JStr (the (Transaction.merchantCategoryCode transaction))),
                            (''usedCategories'', JArr (map JStr usedCategories))])
              else None))"

text \<open>
  The order in which the string keys of an object are enumerated: the keys that are
  array indices (decimal numerals without a leading zero, below 4294967295) first, in
  ascending order, then the others in the order in which they were added.
\<close>

definition decimal_value :: "string \<Rightarrow> nat" where
  "decimal_value s = foldl (\<lambda>n c. 10 * n + digit_value c) 0 s"

definition is_index :: "string \<Rightarrow> bool" where
  "is_index s =
    (s \<noteq> [] \<and> list_all is_digit s \<and> (length s = 1 \<or> hd s \<noteq> CHR ''0'') \<and>
     decimal_value s < 4294967295)"

definition key_order :: "string list \<Rightarrow> string list" where
  "key_order added =
    sort_key decimal_value (filter is_index added) @ filter (\<lambda>k. \<not> is_index k) added"

text \<open>
  The reads \<^verbatim>\<open>usualCountries.length\<close> and \<^verbatim>\<open>usualCountries.includes(code)\<close> on whatever
  \<^verbatim>\<open>JSON.parse\<close> has returned. \<^verbatim>\<open>null\<close> has no properties; an array and a string have both;
  a number and a boolean have neither (the read gives \<^verbatim>\<open>undefined\<close>, here \<open>None\<close>, and the call
  raises); an object has the entries it was given, none of which can be called.
\<close>

definition js_length :: "json \<Rightarrow> error + json option" where
  "js_length v =
    (case v of
       JNull \<Rightarrow> Inl TypeError
     | JArr xs \<Rightarrow> Inr (Some (JNum (of_nat (length xs))))
     | JStr s \<Rightarrow> Inr (Some (JNum (of_nat (length s))))
     | JObj kvs \<Rightarrow> Inr (map_of kvs ''length'')
     | _ \<Rightarrow> Inr None)"

definition js_includes :: "json \<Rightarrow> string \<Rightarrow> error + bool" where
  "js_includes v code =
    (case v of
       JArr xs \<Rightarrow> Inr (JStr code \<in> set xs)
     | JStr s \<Rightarrow> Inr (includes_at s code)
     | _ \<Rightarrow> Inl TypeError)"

text \<open>
  \<^verbatim>\<open>detectLocationAnomaly\<close>. The usual countries are \<^verbatim>\<open>[]\<close>, or what \<^verbatim>\<open>JSON.parse\<close> makes of
  the account's metadata entry when it is truthy and parses; when their length is 0 and
  there is a history, they are the countries of at least a tenth of the history.
\<close>

definition usual_from_history :: "Platform \<Rightarrow> Transaction list \<Rightarrow> string list" where
  "usual_from_history pf history =
    (let countries = truthy_values Transaction.countryCode history;
         minCount = max 1 (nat \<lceil>fmul pf (of_nat (length history)) double_tenth\<rceil>)
     in filter (\<lambda>c. count_list countries c \<ge> minCount)
          (key_order (first_occurrences countries)))"

definition detectLocationAnomaly ::
  "Platform \<Rightarrow> Runtime \<Rightarrow> Transaction \<Rightarrow> Transaction list \<Rightarrow> Account \<Rightarrow>
   error + RuleResult option" where
  "detectLocationAnomaly pf rt transaction history account =
    (if \<not> truthy_str (Transaction.countryCode transaction) then Inr None
     else (let entry = (case metadata account of
                          None \<Rightarrow> None
                        | Some kvs \<Rightarrow> map_of kvs ''usualCountries'');
               usualCountries =
                 (if truthy entry
                  then (case JSON_parse pf (the entry) of Some parsed \<Rightarrow> parsed | None \<Rightarrow> JArr [])
                  else JArr [])
           in case js_length usualCountries of
                Inl e \<Rightarrow> Inl e
              | Inr len \<Rightarrow>
                  (let usualCountries =
                         (if len = Some (JNum 0) \<and> length history > 0
                          then JArr (map JStr (usual_from_history pf history))
                          else usualCountries)
                   in case js_length usualCountries of
                        Inl e \<Rightarrow> Inl e
                      | Inr len \<Rightarrow>
                          if (case len of None \<Rightarrow> False | Some n \<Rightarrow> js_compare rt (<) 0 n)
                          then (case js_includes usualCountries
                                       (the (Transaction.countryCode transaction)) of
                                  Inl e \<Rightarrow> Inl e
                                | Inr included \<Rightarrow>
                                    if \<not> included
                                    then Inr (Some (behavioral_result ''behavioral_unusual_country''
                                           ''Unusual Transaction Location''
                                           [(''transactionCountry'',
                                               JStr (the (Transaction.countryCode transaction))),
                                            (''usualCountries'', usualCountries)]))
                                    else Inr None)
                          else Inr None)))"

definition detectTimePatternAnomaly ::
  "Platform \<Rightarrow> Transaction \<Rightarrow> Transaction list \<Rightarrow> RuleResult option" where
  "detectTimePatternAnomaly pf transaction history =
    (if length history < 10 then None
     else (let txHour = getHours (Transaction.createdAt transaction);
               hours = map (\<lambda>tx. getHours (Transaction.createdAt tx)) history;
               totalTx = length history;
               currentHourCount = count_list hours txHour;
               hourPercentage = fmul pf (fdiv pf (of_nat currentHourCount) (of_nat totalTx)) 100
           in if hourPercentage < 5
              then Some (behavioral_result ''behavioral_unusual_time''
                           ''Unusual Transaction Time''
                           [(''transactionHour'', JNum (of_nat txHour)),
                            (''hourPercentage'', JNum hourPercentage),
                            (''hourCounts'',
                               JObj (map (\<lambda>h. (nat_to_string h, JNum (of_nat (count_list hours h))))
                                      (sort (remdups hours))))])
              else None))"

text \<open>
  \<^verbatim>\<open>detectVelocityAnomaly\<close>: the two counts are queries on the repository, over the 30
  and 60 minutes before the clock's reading, in milliseconds.
\<close>

definition detectVelocityAnomaly ::
  "TransactionRepository \<Rightarrow> Runtime \<Rightarrow> Transaction \<Rightarrow> error + RuleResult option" where
  "detectVelocityAnomaly txRepo rt transaction =
    (let cardVelocityWindow = 30; cardVelocityThreshold = 3;
         accountVelocityWindow = 60; accountVelocityThreshold = 5;
         cardCheck =
           (if truthy_str (Transaction.cardFingerprint transaction)
            then (case count_by_card txRepo (the (Transaction.cardFingerprint transaction))
                         (now rt - cardVelocityWindow * 60000) of
                    Inl e \<Rightarrow> Inl e
                  | Inr cardTxCount \<Rightarrow>
                      if cardTxCount \<ge> cardVelocityThreshold
                      then Inr (Some (behavioral_result ''velocity_card'' ''Card Velocity Check''
                             [(''cardFingerprint'', JStr (the (Transaction.cardFingerprint transaction))),
                              (''timeWindowMinutes'', JNum (of_int cardVelocityWindow)),
                              (''threshold'', JNum (of_nat cardVelocityThreshold)),
                              (''count'', JNum (of_nat cardTxCount))]))
                      else Inr None)
            else Inr None)
     in case cardCheck of
          Inl e \<Rightarrow> Inl e
        | Inr (Some r) \<Rightarrow> Inr (Some r)
        | Inr None \<Rightarrow>
            (case count_by_account txRepo (Transaction.accountId transaction)
                    (now rt - accountVelocityWindow * 60000) of
               Inl e \<Rightarrow> Inl e
             | Inr accountTxCount \<Rightarrow>
                 if accountTxCount \<ge> accountVelocityThreshold
                 then Inr (Some (behavioral_result ''velocity_account'' ''Account Velocity Check''
                        [(''accountId'', JStr (Transaction.accountId transaction)),
                         (''timeWindowMinutes'', JNum (of_int accountVelocityWindow)),
                         (''threshold'', JNum (of_nat accountVelocityThreshold)),
                         (''count'', JNum (of_nat accountTxCount))]))
                 else Inr None))"

text \<open>
  \<^verbatim>\<open>evaluateBehavioralPatterns\<close>. \<open>run_checks\<close> is the body of its \<^verbatim>\<open>try\<close> block after the
  history is read: the checks in their order, each pushing its result if it has one, the
  first that raises ending the block. With the entities at their declared types, the
  checks of the location and of the velocity are the two that can raise. The \<^verbatim>\<open>catch\<close> returns the empty list.
\<close>

fun run_checks :: "(error + RuleResult option) list \<Rightarrow> RuleResult list \<Rightarrow> error + RuleResult list" where
  "run_checks [] results = Inr results"
| "run_checks (check # checks) results =
    (case check of
       Inl e \<Rightarrow> Inl e
     | Inr None \<Rightarrow> run_checks checks results
     | Inr (Some r) \<Rightarrow> run_checks checks (results @ [r]))"

definition behavioral_checks ::
  "Platform \<Rightarrow> Runtime \<Rightarrow> TransactionRepository \<Rightarrow> Transaction \<Rightarrow> Account \<Rightarrow>
   Transaction list \<Rightarrow> (error + RuleResult option) list" where
  "behavioral_checks pf rt txRepo transaction account txHistory =
    [Inr (detectNewPaymentMethod transaction txHistory),
     Inr (detectAmountAnomaly pf transaction txHistory),
     Inr (detectMerchantCategoryAnomaly transaction txHistory),
     detectLocationAnomaly pf rt transaction txHistory account,
     Inr (detectTimePatternAnomaly pf transaction txHistory),
     detectVelocityAnomaly txRepo rt transaction]"

definition evaluateBehavioralPatterns ::
  "Platform \<Rightarrow> Runtime \<Rightarrow> TransactionRepository \<Rightarrow> Transaction \<Rightarrow> Account \<Rightarrow>
   RuleResult list" where
  "evaluateBehavioralPatterns pf rt txRepo transaction account =
    (case getAccountTransactionHistory txRepo (Account.id account) 50 of
       Inl e \<Rightarrow> []
     | Inr txHistory \<Rightarrow>
         (case run_checks (behavioral_checks pf rt txRepo transaction account txHistory) [] of
            Inl e \<Rightarrow> []
          | Inr results \<Rightarrow> results))"

text \<open>
  What the checks that do not raise produce, in their order: the list the specification
  asks the detector to return whatever the other checks do.
\<close>

definition non_failing_results :: "(error + RuleResult option) list \<Rightarrow> RuleResult list" where
  "non_failing_results checks =
    concat (map (\<lambda>check. case check of Inr (Some r) \<Rightarrow> [r] | _ \<Rightarrow> []) checks)"

section \<open>Concrete inputs\<close>

text \<open>Two accounts used as a concrete store: a source of balance 100 and a destination of balance 10.\<close>

definition account_A :: Account where
  "account_A =
    \<lparr>Account.id = ''A'', accountNumber = ''ACC-A'', ownerName = ''Owner A'',
     email = ''a@example.com'', phone = None, balance = 100, currency = ''USD'',
     status = ACTIVE, isSweepEnabled = False, sweepAccountId = None, metadata = None,
     createdAt = \<lparr>getTime = 1700000000000, getDay = 2, getHours = 22\<rparr>,
     updatedAt = \<lparr>getTime = 1700000000000, getDay = 2, getHours = 22\<rparr>\<rparr>"

definition account_B :: Account where
  "account_B = account_A\<lparr>Account.id := ''B'', accountNumber := ''ACC-B'', balance := 10\<rparr>"

definition two_accounts :: account_store where
  "two_accounts = [''A'' \<mapsto> account_A, ''B'' \<mapsto> account_B]"

text \<open>
  A runtime for concrete evaluation: June 2025 on the clock, and stand-ins for the
  library metrics that tell equal strings from different ones.
\<close>

definition runtime0 :: Runtime where
  "runtime0 =
    \<lparr>LevenshteinDistance = (\<lambda>a b. if a = b then 0 else max (length a) (length b)),
     compareTwoStrings = (\<lambda>a b. if a = b then 1 else 0),
     metaphone = (\<lambda>s. s),
     ToNumber = (\<lambda>v. None),
     currentYear = 2025, currentMonth = 6, now = 1750000000000\<rparr>"

text \<open>The card request of the repository's high-risk example, not enriched.\<close>

definition tx_risky :: Transaction where
  "tx_risky =
    \<lparr>Transaction.transactionId = ''tx-risky'', accountId = ''A'', amount = 100,
     currency = ''USD'', merchantName = ''Test Merchant'', merchantId = None,
     merchantCategoryCode = Some ''5411'', merchantCategory = None, location = None,
     countryCode = Some ''US'', paymentToken = Some ''tkn_risky123'',
     paymentMethod = Some ''card'', cardBrand = Some ''visa'', cardLast4 = Some ''4242'',
     cardExpiryMonth = Some 12, cardExpiryYear = Some 2030,
     cardFingerprint = Some ''fp_risk123'', enrichedData = None,
     Transaction.createdAt = \<lparr>getTime = 1750000000000, getDay = 0, getHours = 15\<rparr>\<rparr>"

text \<open>The seeded global rule on high-risk card tokens, and two more rules: one on the
  amount, and one whose country condition holds a number where a string is expected.\<close>

definition rule_high_risk :: Rule where
  "rule_high_risk =
    \<lparr>Rule.id = ''rule-123'', name = ''High-Risk Card Tokens'', action = DECLINE, priority = 5,
     conditions = Some [(''card'', JObj [(''highRiskTokens'',
        JArr [JStr ''tkn_risky123'', JStr ''tkn_flagged456'', JStr ''tkn_suspect789''])])]\<rparr>"

definition rule_amount :: Rule where
  "rule_amount =
    \<lparr>Rule.id = ''rule-amount'', name = ''Amount over 50'', action = REVIEW, priority = 10,
     conditions = Some [(''amount_greater_than'', JNum 50)]\<rparr>"

definition rule_ill_typed :: Rule where
  "rule_ill_typed =
    \<lparr>Rule.id = ''rule-country'', name = ''Country'', action = DECLINE, priority = 20,
     conditions = Some [(''country_code_equals'', JNum 5)]\<rparr>"

definition rule_unconditioned :: Rule where
  "rule_unconditioned =
    \<lparr>Rule.id = ''rule-empty'', name = ''No conditions'', action = DECLINE, priority = 1,
     conditions = Some []\<rparr>"

text \<open>A transaction whose merchant name is a bare company type, which cleans to the
  empty string.\<close>

definition tx_llc :: Transaction where
  "tx_llc = tx_risky\<lparr>Transaction.merchantName := ''LLC''\<rparr>"

text \<open>
  An account history of one earlier card payment with another card, and a repository
  that returns it but whose counting queries raise.
\<close>

definition tx_earlier :: Transaction where
  "tx_earlier =
    tx_risky\<lparr>Transaction.transactionId := ''tx-earlier'',
             Transaction.paymentToken := Some ''tkn_other'',
             Transaction.cardFingerprint := Some ''fp_other''\<rparr>"

definition repo_counts_raise :: TransactionRepository where
  "repo_counts_raise =
    \<lparr>find_recent = (\<lambda>acct limit. Inr [tx_earlier]),
     count_by_card = (\<lambda>fp since. Inl DbError),
     count_by_account = (\<lambda>acct since. Inl DbError)\<rparr>"

definition repo_quiet :: TransactionRepository where
  "repo_quiet =
    \<lparr>find_recent = (\<lambda>acct limit. Inr [tx_earlier]),
     count_by_card = (\<lambda>fp since. Inr 0),
     count_by_account = (\<lambda>acct since. Inr 1)\<rparr>"

text \<open>
  A platform for concrete evaluation: exact arithmetic, the identity in place of the
  square root, and a \<^verbatim>\<open>JSON.parse\<close> that knows the texts \<^verbatim>\<open>null\<close> and \<^verbatim>\<open>[]\<close>. And the account
  A with the text \<^verbatim>\<open>null\<close> stored as its usual countries.
\<close>

definition platform0 :: Platform where
  "platform0 =
    \<lparr>fadd = (+), fsub = (-), fmul = (*), fdiv = (/), fsqrt = (\<lambda>x. x),
     JSON_parse = (\<lambda>v. if v = JStr ''null'' then Some JNull
                        else if v = JStr ''[]'' then Some (JArr []) else None)\<rparr>"

definition account_null_countries :: Account where
  "account_null_countries = account_A\<lparr>metadata := Some [(''usualCountries'', JStr ''null'')]\<rparr>"

definition rules0 :: "Rule list" where
  "rules0 = [rule_ill_typed, rule_high_risk, rule_amount]"

definition new_card_result :: RuleResult where
  "new_card_result =
    behavioral_result ''behavioral_new_card'' ''New Payment Method Detection''
      [(''isNewCard'', JBool True), (''hasCardHistory'', JBool True)]"

text \<open>A stand-in cipher that adds the first byte of the key to every byte and accepts
  vectors of 16 bytes, with a key and a vector for it.\<close>

definition shift_cipher :: Crypto where
  "shift_cipher =
    \<lparr>encipher = (\<lambda>key iv input. map (\<lambda>b. b + hd key) input),
     createDecipheriv = (\<lambda>key iv.
       if length iv = 16 then Inr (\<lambda>input. Inr (map (\<lambda>b. b - hd key) input))
       else Inl (Error ''Invalid initialization vector''))\<rparr>"

definition key0 :: bytes where
  "key0 = replicate 32 7"

definition iv0 :: bytes where
  "iv0 = [0, 1, 2, 3, 4, 5, 6, 7, 8, 9, 10, 11, 12, 13, 14, 255]"

section \<open>Properties\<close>

subsection \<open>Card number validation\<close>

lemma luhn_loop_terms:
  "i \<le> length digits \<Longrightarrow>
   luhn_loop digits i acc dbl = acc + sum_list (luhn_terms (rev (take i digits)) dbl)"
proof (induction i arbitrary: acc dbl)
  case 0
  then show ?case by simp
next
  case (Suc i)
  then have "take (Suc i) digits = take i digits @ [digits ! i]"
    by (simp add: take_Suc_conv_app_nth)
  with Suc show ?case by (simp add: Let_def mult.commute)
qed

lemma isValidPan_iff_spec:
  "isValidPan pan \<longleftrightarrow> pan_format pan \<and> luhn_checksum_spec pan mod 10 = 0"
  by (auto simp: isValidPan_def luhn_checksum_spec_def luhn_loop_terms pan_format_def)

text \<open>
  Claim C8. \<^verbatim>\<open>isValidPan\<close> accepts exactly the strings of 13 to 19 decimal digits whose
  Luhn checksum, as the specification words it, is divisible by 10; 4242424242424242 is
  accepted and 4242424242424241 is not.
\<close>

theorem C8_isValidPan_luhn:
  "(isValidPan pan \<longleftrightarrow>
      13 \<le> length pan \<and> length pan \<le> 19 \<and> list_all is_digit pan \<and>
      luhn_checksum_spec pan mod 10 = 0)
   \<and> isValidPan ''4242424242424242'' \<and> \<not> isValidPan ''4242424242424241''"
proof -
  have a: "isValidPan ''4242424242424242''" by code_simp
  have b: "\<not> isValidPan ''4242424242424241''" by code_simp
  show ?thesis using a b isValidPan_iff_spec [of pan] by (simp add: pan_format_def)
qed

subsection \<open>Sanitization\<close>

lemma isValidPan_any_JStr: "isValidPan_any (JStr s) = Inr (isValidPan s)"
  by (auto simp: isValidPan_any_def isValidPan_def falsy_def)

lemma isValidPan_any_True_JStr: "isValidPan_any v = Inr True \<Longrightarrow> \<exists>s. v = JStr s"
  by (cases v) (auto simp: isValidPan_any_def split: if_splits)

lemma REDACTED_not_pan: "\<not> isValidPan ''[REDACTED]''"
  by (simp add: isValidPan_def pan_format_def)

lemma sanitizePanValue_REDACTED: "sanitizePanValue REDACTED = REDACTED"
  by (simp add: sanitizePanValue_def REDACTED_def isValidPan_any_JStr REDACTED_not_pan)

lemma sanitizePanValue_unmaskable:
  "(case v of JStr s \<Rightarrow> \<not> isValidPan s | _ \<Rightarrow> True) \<Longrightarrow> sanitizePanValue v = REDACTED"
  by (cases v) (auto simp: sanitizePanValue_def isValidPan_any_JStr split: sum.splits dest: isValidPan_any_True_JStr)

lemma is_object_sanitize: "is_object (secureSanitizeObject v) = is_object v"
  by (cases v) simp_all

lemma sanitize_primitive: "\<not> is_object v \<Longrightarrow> secureSanitizeObject v = v"
  by (cases v) simp_all

lemma not_object_REDACTED: "\<not> is_object REDACTED"
  by (simp add: REDACTED_def)

lemma nat_to_string_digit: "nat_to_string n \<noteq> [] \<and> is_digit (hd (nat_to_string n))"
proof (induction n rule: nat_to_string.induct)
  case (1 n)
  show ?case
  proof (cases "n < 10")
    case True
    then have "nat_to_string n = [char_of (48 + n)]" by (simp add: nat_to_string.simps)
    moreover have "of_char (char_of (48 + n) :: char) = 48 + n" using True by simp
    ultimately show ?thesis using True by (simp add: is_digit_def)
  next
    case False
    then have "nat_to_string n = nat_to_string (n div 10) @ [char_of (48 + n mod 10)]"
      by (subst nat_to_string.simps) simp
    with 1 False show ?thesis by simp
  qed
qed

lemma index_key_plain:
  "nat_to_string i \<notin> set PCI_FIELDS \<and> nat_to_string i \<noteq> ''cardNumber'' \<and> nat_to_string i \<noteq> ''pan''"
proof -
  have "\<not> is_digit (CHR ''c'')" "\<not> is_digit (CHR ''p'')" by (simp_all add: is_digit_def)
  then have "\<And>s. s \<in> set PCI_FIELDS \<or> s = ''cardNumber'' \<or> s = ''pan'' \<Longrightarrow> \<not> is_digit (hd s)"
    by (auto simp: PCI_FIELDS_def)
  then show ?thesis using nat_to_string_digit [of i] by blast
qed

lemma cardNumber_PCI: "''cardNumber'' \<in> set PCI_FIELDS"
  by (simp add: PCI_FIELDS_def)

lemma sanitize_idem_aux:
  "(no_maskable_pan v \<longrightarrow> secureSanitizeObject (secureSanitizeObject v) = secureSanitizeObject v)"
  "(no_maskable_pan_entries kvs \<longrightarrow> sanitizeEntries (sanitizeEntries kvs) = sanitizeEntries kvs)"
  "(no_maskable_pan_items xs \<longrightarrow> sanitizeEntries (sanitizeItems i xs) = sanitizeItems i xs)"
proof (induction v and kvs and i xs rule: secureSanitizeObject_sanitizeEntries_sanitizeItems.induct)
  case (8 key v kvs)
  then show ?case
    by (auto simp: sanitizePanValue_REDACTED sanitizePanValue_unmaskable is_object_sanitize
        not_object_REDACTED cardNumber_PCI)
next
  case (10 i v xs)
  then show ?case
    using index_key_plain [of i]
    by (auto simp: is_object_sanitize)
qed simp_all

text \<open>
  Claim C4, as amended. When no \<^verbatim>\<open>pan\<close> entry reached by the walk holds a string that
  \<^verbatim>\<open>isValidPan\<close> accepts, sanitizing twice gives what sanitizing once gives. (A valid PAN
  under \<^verbatim>\<open>pan\<close> is masked by the first pass, and the masked form is redacted by a second.)
\<close>

theorem C4_sanitize_idempotent_without_maskable_pan:
  "no_maskable_pan x \<Longrightarrow> secureSanitizeObject (secureSanitizeObject x) = secureSanitizeObject x"
  using sanitize_idem_aux(1) [of x] by simp

theorem C4_witness:
  "no_maskable_pan (JObj [(''cardNumber'', JStr ''4242424242424242''), (''pan'', JStr ''1234''),
      (''nested'', JArr [JObj [(''cvv'', JNum 123)], JNum 5])]) \<and>
   secureSanitizeObject (secureSanitizeObject (JObj [(''cardNumber'', JStr ''4242424242424242''), (''pan'', JStr ''1234''),
      (''nested'', JArr [JObj [(''cvv'', JNum 123)], JNum 5])])) =
     JObj [(''cardNumber'', JStr ''[REDACTED]''), (''pan'', JStr ''[REDACTED]''),
      (''nested'', JObj [(''0'', JObj [(''cvv'', JStr ''[REDACTED]'')]), (''1'', JNum 5)])]"
proof -
  let ?x = "JObj [(''cardNumber'', JStr ''4242424242424242''), (''pan'', JStr ''1234''),
      (''nested'', JArr [JObj [(''cvv'', JNum 123)], JNum 5])]"
  have h: "no_maskable_pan ?x" by code_simp
  have v: "secureSanitizeObject ?x = JObj [(''cardNumber'', JStr ''[REDACTED]''), (''pan'', JStr ''[REDACTED]''),
      (''nested'', JObj [(''0'', JObj [(''cvv'', JStr ''[REDACTED]'')]), (''1'', JNum 5)])]" by code_simp
  show ?thesis using h v C4_sanitize_idempotent_without_maskable_pan [OF h] by simp
qed

text \<open>
  Claim C4 as stated fails: a Luhn-valid card number under the key \<^verbatim>\<open>pan\<close> is masked by
  one pass and replaced by the redaction marker by the next.
\<close>

theorem C4_counterexample:
  "secureSanitizeObject (JObj [(''pan'', JStr ''4242424242424242'')]) = JObj [(''pan'', JStr ''424242******4242'')] \<and>
   secureSanitizeObject (secureSanitizeObject (JObj [(''pan'', JStr ''4242424242424242'')])) = JObj [(''pan'', JStr ''[REDACTED]'')] \<and>
   secureSanitizeObject (secureSanitizeObject (JObj [(''pan'', JStr ''4242424242424242'')])) \<noteq>
     secureSanitizeObject (JObj [(''pan'', JStr ''4242424242424242'')])"
  by code_simp

subsection \<open>Fund transfer\<close>

lemma transfer_cases:
  "transferFunds raises store f t amt = (ok, store') \<Longrightarrow>
   (\<not> ok \<and> store' = store) \<or>
   (\<exists>a b. ok \<and> store f = Some a \<and> store t = Some b \<and> amt \<le> balance a \<and>
      store' = (store(f \<mapsto> a\<lparr>balance := balance a - amt\<rparr>))(t \<mapsto> b\<lparr>balance := balance b + amt\<rparr>))"
  by (auto simp: transferFunds_def Let_def split: if_splits option.splits)

text \<open>
  Claim C5, as amended. Starting from two accounts with non-negative balances, a transfer
  of a non-negative amount leaves both balances non-negative, whether it succeeds or not
  and whichever call of the query runner raises.
\<close>

theorem C5_transfer_keeps_balances_nonnegative:
  assumes "store fromAccountId = Some a" "store toAccountId = Some b"
    and "0 \<le> balance a" "0 \<le> balance b" "0 \<le> amt"
    and "transferFunds raises store fromAccountId toAccountId amt = (ok, store')"
  shows "\<exists>a' b'. store' fromAccountId = Some a' \<and> store' toAccountId = Some b' \<and>
           0 \<le> balance a' \<and> 0 \<le> balance b'"
  using transfer_cases [OF assms(6)] assms(1-5) by auto

text \<open>
  Claim C6. When the source account's balance is strictly below the amount,
  \<^verbatim>\<open>transferFunds\<close> returns false and the store of accounts is the one it started from.
\<close>

theorem C6_insufficient_funds_no_effect:
  "store fromAccountId = Some sourceAccount \<Longrightarrow> balance sourceAccount < amt \<Longrightarrow>
   transferFunds raises store fromAccountId toAccountId amt = (False, store)"
  by (simp add: transferFunds_def)

theorem C6_witness:
  "two_accounts ''A'' = Some account_A \<and> balance account_A < 150 \<and>
   transferFunds reliable two_accounts ''A'' ''B'' 150 = (False, two_accounts)"
proof -
  have h1: "two_accounts ''A'' = Some account_A"
    by (simp add: two_accounts_def)
  have h2: "balance account_A < 150" by (simp add: account_A_def)
  show ?thesis
    using h1 h2
      C6_insufficient_funds_no_effect [where store = two_accounts and fromAccountId = "''A''"
        and sourceAccount = account_A and amt = 150 and raises = reliable and toAccountId = "''B''"]
    by simp
qed

text \<open>
  Claim C5 as stated fails for a negative amount: the source check passes and the
  destination, of balance 10, is left with -40.
\<close>

theorem C5_counterexample:
  "fst (transferFunds reliable two_accounts ''A'' ''B'' (- 50)) \<and>
   map_option balance (snd (transferFunds reliable two_accounts ''A'' ''B'' (- 50)) ''B'') = Some (- 40)"
  by (simp add: transferFunds_def two_accounts_def account_A_def account_B_def reliable_def Let_def)

theorem C5_witness:
  "two_accounts ''A'' = Some account_A \<and> two_accounts ''B'' = Some account_B \<and>
   0 \<le> balance account_A \<and> 0 \<le> balance account_B \<and> (0 :: rat) \<le> 30 \<and>
   (\<exists>a' b'. snd (transferFunds reliable two_accounts ''A'' ''B'' 30) ''A'' = Some a' \<and>
      snd (transferFunds reliable two_accounts ''A'' ''B'' 30) ''B'' = Some b' \<and>
      0 \<le> balance a' \<and> 0 \<le> balance b')"
proof -
  have h1: "two_accounts ''A'' = Some account_A"
    by (simp add: two_accounts_def)
  have h2: "two_accounts ''B'' = Some account_B"
    by (simp add: two_accounts_def)
  have h3: "0 \<le> balance account_A" "0 \<le> balance account_B"
    by (simp_all add: account_A_def account_B_def)
  show ?thesis
    using h1 h2 h3
      C5_transfer_keeps_balances_nonnegative [where store = two_accounts
        and fromAccountId = "''A''" and toAccountId = "''B''"
        and a = account_A and b = account_B and amt = 30 and raises = reliable
        and ok = "fst (transferFunds reliable two_accounts ''A'' ''B'' 30)"
        and store' = "snd (transferFunds reliable two_accounts ''A'' ''B'' 30)"]
    by simp
qed

subsection \<open>Encryption envelope\<close>

lemma decode_ascii: "u < 0x80 \<Longrightarrow> decode_loop idle (u # rest) = u # decode_loop idle rest"
  by (simp add: idle_def start_def)

lemma mod_offsets:
  "a < 32 \<Longrightarrow> (192 + a) mod 32 = a"
  "a < 16 \<Longrightarrow> (224 + a) mod 16 = a"
  "a < 8 \<Longrightarrow> (240 + a) mod 8 = a"
  "a < 64 \<Longrightarrow> (128 + a) mod 64 = (a :: nat)"
  using mod_mult_self3 [of 6 32 a] mod_mult_self3 [of 14 16 a] mod_mult_self3 [of 30 8 a]
    mod_mult_self3 [of 2 64 a]
  by simp_all

lemma decode_two_aux:
  assumes "2 \<le> a" "a < 32" "r < 64"
  shows "decode_loop idle ((0xC0 + a) # (0x80 + r) # rest) = (a * 64 + r) # decode_loop idle rest"
  using assms by (simp add: idle_def start_def mod_offsets code_units_of_def)

lemma decode_three_aux:
  assumes "a < 16" "m < 64" "r < 64" "a = 0 \<longrightarrow> 32 \<le> m" "a = 13 \<longrightarrow> m < 32"
  shows "decode_loop idle ((0xE0 + a) # (0x80 + m) # (0x80 + r) # rest) =
           ((a * 64 + m) * 64 + r) # decode_loop idle rest"
proof -
  have "(a * 64 + m) * 64 + r < 65536" using assms(1-3) by simp
  then show ?thesis
    using assms by (auto simp: idle_def start_def mod_offsets code_units_of_def)
qed

lemma decode_four_aux:
  assumes "a \<le> 4" "m < 64" "n < 64" "r < 64" "a = 0 \<longrightarrow> 16 \<le> m" "a = 4 \<longrightarrow> m < 16"
  shows "decode_loop idle ((0xF0 + a) # (0x80 + m) # (0x80 + n) # (0x80 + r) # rest) =
           code_units_of (((a * 64 + m) * 64 + n) * 64 + r) @ decode_loop idle rest"
  using assms by (auto simp: idle_def start_def mod_offsets)

lemma digits64:
  fixes u :: nat
  shows "u div 4096 = u div 64 div 64"
    and "u div 262144 = u div 64 div 64 div 64"
    and "(u div 64 div 64 * 64 + u div 64 mod 64) * 64 + u mod 64 = u"
    and "((u div 64 div 64 div 64 * 64 + u div 64 div 64 mod 64) * 64 + u div 64 mod 64) * 64
           + u mod 64 = u"
proof -
  show "u div 4096 = u div 64 div 64"
    using div_mult2_eq [of u 64 64] by simp
  show "u div 262144 = u div 64 div 64 div 64"
    using div_mult2_eq [of u 64 4096] div_mult2_eq [of "u div 64" 64 64] by simp
  show "(u div 64 div 64 * 64 + u div 64 mod 64) * 64 + u mod 64 = u"
    by simp
  show "((u div 64 div 64 div 64 * 64 + u div 64 div 64 mod 64) * 64 + u div 64 mod 64) * 64
           + u mod 64 = u"
    by simp
qed

lemma decode_two:
  assumes "0x80 \<le> u" "u < 0x800"
  shows "decode_loop idle ((0xC0 + u div 64) # (0x80 + u mod 64) # rest) = u # decode_loop idle rest"
proof -
  have "2 \<le> u div 64" using assms(1) by (simp add: less_eq_div_iff_mult_less_eq)
  moreover have "u div 64 < 32" using assms(2) by (simp add: div_less_iff_less_mult)
  moreover have "u mod 64 < 64" by simp
  ultimately show ?thesis using decode_two_aux [of "u div 64" "u mod 64" rest] by simp
qed

lemma decode_three:
  assumes "0x800 \<le> u" "u < 0x10000" "\<not> (0xD800 \<le> u \<and> u < 0xE000)"
  shows "decode_loop idle
           ((0xE0 + u div 4096) # (0x80 + u div 64 mod 64) # (0x80 + u mod 64) # rest) =
         u # decode_loop idle rest"
proof -
  define a where "a = u div 64 div 64"
  define m where "m = u div 64 mod 64"
  define r where "r = u mod 64"
  have u: "u = (a * 64 + m) * 64 + r"
    using digits64(3) [of u] by (simp add: a_def m_def r_def)
  have b: "m < 64" "r < 64" by (simp_all add: m_def r_def)
  have a16: "a < 16" using assms(2) b unfolding u by simp
  have lo: "a = 0 \<longrightarrow> 32 \<le> m" using assms(1) b unfolding u by auto
  have hi: "a = 13 \<longrightarrow> m < 32" using assms(2,3) b unfolding u by auto
  have "decode_loop idle ((0xE0 + a) # (0x80 + m) # (0x80 + r) # rest) =
          ((a * 64 + m) * 64 + r) # decode_loop idle rest"
    by (rule decode_three_aux [OF a16 b lo hi])
  then show ?thesis
    by (simp only: a_def m_def r_def digits64(1) digits64(3))
qed

lemma decode_four:
  assumes "0xD800 \<le> u" "u < 0xDC00" "0xDC00 \<le> v" "v < 0xE000"
    and cp: "cp = 0x10000 + (u - 0xD800) * 1024 + (v - 0xDC00)"
  shows "decode_loop idle
           ((0xF0 + cp div 262144) # (0x80 + cp div 4096 mod 64) # (0x80 + cp div 64 mod 64) #
            (0x80 + cp mod 64) # rest) =
         u # v # decode_loop idle rest"
proof -
  define a where "a = cp div 64 div 64 div 64"
  define m where "m = cp div 64 div 64 mod 64"
  define n where "n = cp div 64 mod 64"
  define r where "r = cp mod 64"
  have c: "cp = ((a * 64 + m) * 64 + n) * 64 + r"
    using digits64(4) [of cp] by (simp add: a_def m_def n_def r_def)
  have b: "m < 64" "n < 64" "r < 64" by (simp_all add: m_def n_def r_def)
  have range: "0x10000 \<le> cp" "cp < 0x110000" using assms by simp_all
  have a4: "a \<le> 4" using range(2) b unfolding c by simp
  have lo: "a = 0 \<longrightarrow> 16 \<le> m" using range(1) b unfolding c by auto
  have hi: "a = 4 \<longrightarrow> m < 16" using range(2) b unfolding c by auto
  have "decode_loop idle ((0xF0 + a) # (0x80 + m) # (0x80 + n) # (0x80 + r) # rest) =
          code_units_of (((a * 64 + m) * 64 + n) * 64 + r) @ decode_loop idle rest"
    by (rule decode_four_aux [OF a4 b lo hi])
  then have d: "decode_loop idle
           ((0xF0 + cp div 262144) # (0x80 + cp div 4096 mod 64) # (0x80 + cp div 64 mod 64) #
            (0x80 + cp mod 64) # rest) = code_units_of cp @ decode_loop idle rest"
    by (simp only: a_def m_def n_def r_def digits64(1) digits64(2) digits64(4))
  have "v - 0xDC00 < 1024" using assms(3,4) by simp
  then have "(cp - 0x10000) div 1024 = u - 0xD800" "(cp - 0x10000) mod 1024 = v - 0xDC00"
    unfolding cp by simp_all
  then have "code_units_of cp = [u, v]"
    using range(1) assms(1,3) by (simp add: code_units_of_def)
  with d show ?thesis by simp
qed

lemma decode_encode_units:
  "well_formed_units us \<Longrightarrow> list_all (\<lambda>u. u < 0x10000) us \<Longrightarrow>
   decode_loop idle (encode_units us) = us"
proof (induction us rule: well_formed_units.induct)
  case 1
  show ?case by (simp add: idle_def)
next
  case (2 u us)
  show ?case
  proof (cases "0xD800 \<le> u \<and> u < 0xDC00")
    case True
    with "2.prems"(1) obtain v vs where us: "us = v # vs" and v: "0xDC00 \<le> v" "v < 0xE000"
      and wf: "well_formed_units vs"
      by (cases us) auto
    have "decode_loop idle (encode_units vs) = vs"
      using "2.IH"(1) [OF True us] v wf "2.prems"(2) us by simp
    then show ?thesis
      using True v us
        decode_four [of u v "0x10000 + (u - 0xD800) * 1024 + (v - 0xDC00)" "encode_units vs"]
      by (simp add: Let_def)
  next
    case False
    with "2.prems"(1) have nl: "\<not> (0xDC00 \<le> u \<and> u < 0xE000)" and wf: "well_formed_units us"
      by (auto split: if_splits)
    have ih: "decode_loop idle (encode_units us) = us"
      using "2.IH"(2) [OF False nl wf] "2.prems"(2) by simp
    have u16: "u < 0x10000" using "2.prems"(2) by simp
    consider "u < 0x80" | "0x80 \<le> u" "u < 0x800" | "0x800 \<le> u" by linarith
    then show ?thesis
    proof cases
      case 1
      then show ?thesis using ih decode_ascii [of u "encode_units us"] by simp
    next
      case 2
      then show ?thesis using ih decode_two [of u "encode_units us"] by simp
    next
      case 3
      have ns: "\<not> (0xD800 \<le> u \<and> u < 0xE000)" using False nl by linarith
      have "encode_units (u # us) =
              (0xE0 + u div 4096) # (0x80 + u div 64 mod 64) # (0x80 + u mod 64) # encode_units us"
        using 3 False nl by auto
      then show ?thesis
        using ih decode_three [OF 3 u16 ns, of "encode_units us"] by simp
    qed
  qed
qed

lemma encode_units_bytes:
  "list_all (\<lambda>u. u < 0x10000) us \<Longrightarrow> list_all (\<lambda>b. b < 256) (encode_units us)"
proof (induction us rule: encode_units.induct)
  case 1
  show ?case by simp
next
  case (2 u us)
  have m: "\<And>x :: nat. 0x80 + x mod 64 < 256"
  proof -
    fix x :: nat
    have "x mod 64 < 64" by simp
    then show "0x80 + x mod 64 < 256" by simp
  qed
  have u16: "u < 0x10000" and rest: "list_all (\<lambda>u. u < 0x10000) us" using "2.prems" by simp_all
  consider "u < 0x80" | "0x80 \<le> u" "u < 0x800"
    | "0xD800 \<le> u" "u < 0xDC00" | "0xDC00 \<le> u" "u < 0xE000"
    | "0x800 \<le> u" "\<not> (0xD800 \<le> u \<and> u < 0xE000)" by linarith
  then show ?case
  proof cases
    case 1
    then show ?thesis using "2.IH"(1) rest by simp
  next
    case 2
    then have "u div 64 < 32" by (simp add: div_less_iff_less_mult)
    then show ?thesis using 2 "2.IH"(2) rest m by simp
  next
    case 3
    show ?thesis
    proof (cases us)
      case Nil
      then show ?thesis using 3 by simp
    next
      case (Cons v vs)
      show ?thesis
      proof (cases "0xDC00 \<le> v \<and> v < 0xE000")
        case True
        define cp where "cp = 0x10000 + (u - 0xD800) * 1024 + (v - 0xDC00)"
        from True have v: "0xDC00 \<le> v" "v < 0xE000" by simp_all
        have "cp < 0x110000" using 3 v by (simp add: cp_def)
        then have "cp div 262144 < 5" by (simp add: div_less_iff_less_mult)
        moreover have "list_all (\<lambda>b. b < 256) (encode_units vs)"
          using "2.IH"(3) [of v vs] 3 True Cons rest by simp
        ultimately show ?thesis using 3 True Cons m by (simp add: Let_def cp_def)
      next
        case False
        have "list_all (\<lambda>b. b < 256) (encode_units us)"
          using "2.IH"(4) [of v vs] 3 False Cons rest by (simp del: encode_units.simps)
        moreover have "encode_units (u # us) = [0xEF, 0xBF, 0xBD] @ encode_units us"
          using 3 False Cons by (auto simp del: encode_units.simps simp add: encode_units.simps(2) [of u])
        ultimately show ?thesis by (simp del: encode_units.simps)
      qed
    qed
  next
    case 4
    then have "list_all (\<lambda>b. b < 256) (encode_units us)"
      using "2.IH"(5) rest by simp
    then show ?thesis using 4 by simp
  next
    case 5
    have ns: "\<not> (0xD800 \<le> u \<and> u < 0xDC00)" "\<not> (0xDC00 \<le> u \<and> u < 0xE000)"
      "\<not> u < 0x80" "\<not> u < 0x800"
      using 5 by linarith+
    have "u div 4096 < 16" using u16 by (simp add: div_less_iff_less_mult)
    moreover have "list_all (\<lambda>b. b < 256) (encode_units us)"
      using "2.IH"(6) [OF ns(3,4,1,2)] rest by simp
    moreover have "encode_units (u # us) =
        (0xE0 + u div 4096) # (0x80 + u div 64 mod 64) # (0x80 + u mod 64) # encode_units us"
      using ns by auto
    ultimately show ?thesis using m by simp
  qed
qed

lemma unat_of_nat_bytes:
  "list_all (\<lambda>b. b < 256) bs \<Longrightarrow> map unat (map of_nat bs :: bytes) = bs"
  by (induction bs) (simp_all add: unat_of_nat)

lemma utf8_roundtrip:
  assumes "well_formed s"
  shows "utf8_decode (utf8_encode s) = s"
proof -
  have r: "list_all (\<lambda>u. u < 0x10000) (map unat s)"
  proof -
    have "unat u < 0x10000" for u :: "16 word" using unsigned_less [of u] by simp
    then show ?thesis by (simp add: list_all_iff)
  qed
  have "list_all (\<lambda>b. b < 256) (encode_units (map unat s))"
    by (rule encode_units_bytes [OF r])
  then have "map unat (map of_nat (encode_units (map unat s)) :: bytes) = encode_units (map unat s)"
    by (rule unat_of_nat_bytes)
  moreover have "decode_loop idle (encode_units (map unat s)) = map unat s"
    using assms r by (simp add: well_formed_def decode_encode_units)
  ultimately show ?thesis
    by (simp add: utf8_decode_def utf8_encode_def comp_def)
qed

lemma unat_hex_digit:
  assumes "n < 16"
  shows "unat (hex_digit n) = (if n < 10 then 48 + n else 87 + n)"
proof -
  have k: "unat (of_nat k :: 16 word) = k" if "k < 65536" for k
    using that by (simp add: unat_of_nat)
  have "unat (of_nat (48 + n) :: 16 word) = 48 + n" "unat (of_nat (87 + n) :: 16 word) = 87 + n"
    using assms by (simp_all only: k)
  then show ?thesis by (simp only: hex_digit_def if_distrib [of unat] split: if_splits)
qed

lemma hex_value_digit: "n < 16 \<Longrightarrow> hex_value (hex_digit n) = Some n"
  by (auto simp: hex_value_def Let_def unat_hex_digit)

lemma hex_digit_not_colon: "n < 16 \<Longrightarrow> hex_digit n \<noteq> colon"
proof
  assume n: "n < 16" and "hex_digit n = colon"
  then have "hex_value (hex_digit n) = hex_value colon" by simp
  moreover have "hex_value colon = None" by (simp add: hex_value_def colon_def)
  ultimately show False using hex_value_digit [OF n] by simp
qed

lemma from_hex_to_hex: "from_hex (to_hex bs) = bs"
proof (induction bs)
  case Nil
  then show ?case by (simp add: to_hex_def)
next
  case (Cons b bs)
  have "unat b < 256" using unsigned_less [of b] by simp
  then have "unat b div 16 < 16" by simp
  moreover have "unat b mod 16 < 16" by simp
  moreover have "of_nat (16 * (unat b div 16) + unat b mod 16) = b"
    by (simp add: mult_div_mod_eq)
  ultimately show ?case using Cons
    by (simp add: to_hex_def hex_byte_def hex_value_digit)
qed

lemma length_to_hex: "length (to_hex bs) = 2 * length bs"
  by (induction bs) (simp_all add: to_hex_def hex_byte_def)

lemma colon_not_in_hex_byte: "colon \<notin> set (hex_byte b)"
proof -
  have "unat b < 256" using unsigned_less [of b] by simp
  then have "unat b div 16 < 16" by simp
  moreover have "unat b mod 16 < 16" by simp
  ultimately show ?thesis
    using hex_digit_not_colon [of "unat b div 16"] hex_digit_not_colon [of "unat b mod 16"]
    by (simp add: hex_byte_def)
qed

lemma colon_not_in_hex: "colon \<notin> set (to_hex bs)"
  by (simp add: to_hex_def colon_not_in_hex_byte)

lemma split_on_none: "sep \<notin> set s \<Longrightarrow> split_on sep s = [s]"
  by (induction s) auto

lemma split_on_once:
  "sep \<notin> set a \<Longrightarrow> sep \<notin> set b \<Longrightarrow> split_on sep (a @ sep # b) = [a, b]"
  by (induction a) (auto simp: split_on_none)

lemma split_envelope:
  "split_on colon (encrypt crypto key iv x) =
     [to_hex iv, to_hex (encipher crypto key iv (utf8_encode x))]"
  by (simp add: encrypt_def Let_def split_on_once colon_not_in_hex)

lemma decrypt_encrypt:
  assumes "createDecipheriv crypto key iv = Inr dec"
    and "dec (encipher crypto key iv (utf8_encode x)) = Inr (utf8_encode x)"
  shows "decrypt crypto key (encrypt crypto key iv x) = Inr (utf8_decode (utf8_encode x))"
  using assms by (simp add: decrypt_def split_envelope from_hex_to_hex length_to_hex)

text \<open>
  Claim C7, as amended. For every string without an unpaired surrogate, whether empty or
  not, and a cipher whose decipher for the key and the vector gives back the bytes that
  were enciphered, \<^verbatim>\<open>decrypt\<close> returns the string \<^verbatim>\<open>encrypt\<close> was given; and on every input
  that does not split at colons into exactly two parts \<^verbatim>\<open>decrypt\<close> raises, whatever the
  cipher.
\<close>

theorem C7_decrypt_inverts_encrypt_on_well_formed_strings:
  "(well_formed x \<and> createDecipheriv crypto key iv = Inr dec \<and>
    dec (encipher crypto key iv (utf8_encode x)) = Inr (utf8_encode x) \<longrightarrow>
      decrypt crypto key (encrypt crypto key iv x) = Inr x) \<and>
   (length (split_on colon e) \<noteq> 2 \<longrightarrow>
      decrypt crypto key e = Inl (Error ''Invalid encrypted data format''))"
  by (auto simp: decrypt_encrypt utf8_roundtrip) (simp add: decrypt_def)

lemma shift_cipher_inverts:
  "createDecipheriv shift_cipher key0 iv0 =
     Inr (\<lambda>input. Inr (map (\<lambda>b. b - hd key0) input))"
  "(\<lambda>input. Inr (map (\<lambda>b. b - hd key0) input)) (encipher shift_cipher key0 iv0 m) = Inr m"
  by (simp_all add: shift_cipher_def iv0_def comp_def)

lemma well_formed_digits: "well_formed (js ''4242424242424242'')"
  by (simp add: well_formed_def js_def)

theorem C7_witness:
  "well_formed (js ''4242424242424242'') \<and>
   decrypt shift_cipher key0 (encrypt shift_cipher key0 iv0 (js ''4242424242424242'')) =
     Inr (js ''4242424242424242'') \<and>
   length (split_on colon (js ''000102ff'')) \<noteq> 2 \<and>
   decrypt shift_cipher key0 (js ''000102ff'') = Inl (Error ''Invalid encrypted data format'')"
proof -
  have h2: "length (split_on colon (js ''000102ff'')) \<noteq> 2"
    by (simp add: js_def colon_def)
  show ?thesis
    using well_formed_digits h2 shift_cipher_inverts(1)
      shift_cipher_inverts(2) [of "utf8_encode (js ''4242424242424242'')"]
      C7_decrypt_inverts_encrypt_on_well_formed_strings
        [of "js ''4242424242424242''" shift_cipher key0 iv0
            "\<lambda>input. Inr (map (\<lambda>b. b - hd key0) input)" "js ''000102ff''"]
    by simp
qed

text \<open>
  Claim C7 as stated fails at the string of the one code unit D800, a high surrogate
  with no low one after it: it is encoded as the bytes of U+FFFD, and \<^verbatim>\<open>decrypt\<close> returns
  the string of the one code unit FFFD.
\<close>

theorem C7_counterexample:
  "utf8_encode [0xD800] = [0xEF, 0xBF, 0xBD] \<and>
   decrypt shift_cipher key0 (encrypt shift_cipher key0 iv0 [0xD800]) = Inr [0xFFFD] \<and>
   decrypt shift_cipher key0 (encrypt shift_cipher key0 iv0 [0xD800]) \<noteq> Inr [0xD800]"
proof -
  have e: "utf8_encode [0xD800] = [0xEF, 0xBF, 0xBD]"
    by (simp add: utf8_encode_def)
  have d: "utf8_decode [0xEF, 0xBF, 0xBD] = [0xFFFD]"
    by (simp add: utf8_decode_def idle_def start_def code_units_of_def)
  have "decrypt shift_cipher key0 (encrypt shift_cipher key0 iv0 [0xD800]) =
          Inr (utf8_decode (utf8_encode [0xD800]))"
    by (rule decrypt_encrypt [OF shift_cipher_inverts(1) shift_cipher_inverts(2)])
  then show ?thesis using e d by simp
qed

subsection \<open>Rule evaluation\<close>

lemma evaluateRules_loop_map:
  "evaluateRules_loop rt tx rs acc =
     acc @ map (\<lambda>r. result_of r (evaluateRule rt tx r = Inr True)) rs"
proof (induction rs arbitrary: acc)
  case Nil
  then show ?case by simp
next
  case (Cons r rs)
  show ?case
  proof (cases "evaluateRule rt tx r")
    case (Inl e)
    then show ?thesis by (simp add: Cons.IH)
  next
    case (Inr m)
    then show ?thesis by (cases m) (simp_all add: Cons.IH)
  qed
qed

lemma evaluateRules_map:
  "evaluateRules rt tx rules =
     map (\<lambda>r. result_of r (evaluateRule rt tx r = Inr True)) (sort_key priority rules)"
  by (simp add: evaluateRules_def evaluateRules_loop_map)

text \<open>
  Claim C2. \<^verbatim>\<open>evaluateRules\<close> returns one result for each rule given, in ascending order of
  the rules' priorities: the identifiers, names, actions and conditions of the results
  are those of the rules sorted by priority (a rearrangement of the input in which the
  priorities never decrease), one after the other; and the result at each place is
  matched exactly when the evaluation of the rule at that place returns true, so that a
  rule whose evaluation raises is reported not matched and the batch goes on.
\<close>

theorem C2_one_result_per_rule_in_priority_order:
  "mset (sort_key priority rules) = mset rules \<and>
   sorted (map priority (sort_key priority rules)) \<and>
   length (evaluateRules rt tx rules) = length rules \<and>
   map ruleId (evaluateRules rt tx rules) = map Rule.id (sort_key priority rules) \<and>
   map ruleName (evaluateRules rt tx rules) = map name (sort_key priority rules) \<and>
   map RuleResult.action (evaluateRules rt tx rules) = map Rule.action (sort_key priority rules) \<and>
   map RuleResult.conditions (evaluateRules rt tx rules) =
     map Rule.conditions (sort_key priority rules) \<and>
   (\<forall>i<length rules.
      (matched (evaluateRules rt tx rules ! i) \<longleftrightarrow>
         evaluateRule rt tx (sort_key priority rules ! i) = Inr True) \<and>
      ((\<exists>e. evaluateRule rt tx (sort_key priority rules ! i) = Inl e) \<longrightarrow>
         \<not> matched (evaluateRules rt tx rules ! i)))"
  by (auto simp: evaluateRules_map result_of_def comp_def)

lemma no_conditions_no_match:
  "Rule.conditions r = None \<or> Rule.conditions r = Some [] \<Longrightarrow> evaluateRule rt tx r = Inr False"
  by (auto simp: evaluateRule_def)

text \<open>
  Claim C10. A rule whose conditions are missing or empty is reported by \<^verbatim>\<open>evaluateRules\<close>,
  at its place in the priority order, as not matched.
\<close>

theorem C10_unconditioned_rule_never_matches:
  "i < length rules \<Longrightarrow>
   Rule.conditions (sort_key priority rules ! i) = None \<or>
   Rule.conditions (sort_key priority rules ! i) = Some [] \<Longrightarrow>
   evaluateRules rt tx rules ! i = result_of (sort_key priority rules ! i) False"
  by (simp add: evaluateRules_map no_conditions_no_match)

lemma card_condition_type_unknown: "evaluateCondition rt ''card'' v d = Inr False"
  by (simp add: evaluateCondition_def)

lemma card_key_blocks_conditions:
  "''card'' \<in> fst ` set conds \<Longrightarrow> evaluateConditions rt conds d \<noteq> Inr True"
proof (induction conds)
  case Nil
  then show ?case by simp
next
  case (Cons kv conds)
  obtain k v where kv: "kv = (k, v)" by (cases kv)
  show ?case
  proof (cases "k = ''card''")
    case True
    then show ?thesis by (simp add: kv card_condition_type_unknown)
  next
    case False
    with Cons kv show ?thesis by (auto split: sum.splits)
  qed
qed

lemma card_rule_never_matches:
  assumes "Rule.conditions r = Some conds" "map_of conds ''card'' = Some v"
  shows "evaluateRule rt tx r \<noteq> Inr True"
proof -
  from assms(2) have "''card'' \<in> fst ` set conds"
    by (metis domI dom_map_of_conv_image_fst)
  from card_key_blocks_conditions [OF this] show ?thesis
    using assms(1) by (auto simp: evaluateRule_def Let_def split: sum.splits if_splits)
qed

lemma sorted_rules0: "sort_key priority rules0 = [rule_high_risk, rule_amount, rule_ill_typed]"
  by (simp add: rules0_def rule_high_risk_def rule_amount_def rule_ill_typed_def)

lemma tx_risky_data:
  "amount (prepareTransactionData tx_risky) = 100"
  "countryCode (prepareTransactionData tx_risky) = Some ''US''"
  "paymentMethod (prepareTransactionData tx_risky) = Some ''card''"
  "paymentToken (prepareTransactionData tx_risky) = Some ''tkn_risky123''"
  "cardBrand (prepareTransactionData tx_risky) = Some ''visa''"
  "cardExpiryMonth (prepareTransactionData tx_risky) = Some 12"
  "cardExpiryYear (prepareTransactionData tx_risky) = Some 2030"
  "cardFingerprint (prepareTransactionData tx_risky) = Some ''fp_risk123''"
  by (simp_all add: prepareTransactionData_def tx_risky_def or_else_def)

lemma eval_rule_ill_typed: "evaluateRule runtime0 tx_risky rule_ill_typed = Inl TypeError"
  by (simp add: evaluateRule_def rule_ill_typed_def evaluateCondition_def stringMatch_def
      truthy_str_def tx_risky_data)

lemma eval_rule_amount: "evaluateRule runtime0 tx_risky rule_amount = Inr True"
  by (simp add: evaluateRule_def rule_amount_def evaluateCondition_def js_compare_def
      to_number_def tx_risky_data truthy_def)

lemma eval_rule_high_risk: "evaluateRule runtime0 tx_risky rule_high_risk = Inr False"
  by (simp add: evaluateRule_def rule_high_risk_def card_condition_type_unknown)

theorem C2_witness:
  "map priority rules0 = [20, 5, 10] \<and>
   evaluateRule runtime0 tx_risky rule_ill_typed = Inl TypeError \<and>
   length (evaluateRules runtime0 tx_risky rules0) = 3 \<and>
   map ruleId (evaluateRules runtime0 tx_risky rules0) =
     [''rule-123'', ''rule-amount'', ''rule-country''] \<and>
   map RuleResult.action (evaluateRules runtime0 tx_risky rules0) = [DECLINE, REVIEW, DECLINE] \<and>
   \<not> matched (evaluateRules runtime0 tx_risky rules0 ! 0) \<and>
   matched (evaluateRules runtime0 tx_risky rules0 ! 1) \<and>
   \<not> matched (evaluateRules runtime0 tx_risky rules0 ! 2)"
proof -
  have len: "length rules0 = 3" by (simp add: rules0_def)
  have pr: "map priority rules0 = [20, 5, 10]"
    by (simp add: rules0_def rule_high_risk_def rule_amount_def rule_ill_typed_def)
  note c2 = C2_one_result_per_rule_in_priority_order [of rules0 runtime0 tx_risky]
  from c2 have l: "length (evaluateRules runtime0 tx_risky rules0) = length rules0"
    and ids: "map ruleId (evaluateRules runtime0 tx_risky rules0) =
                map Rule.id (sort_key priority rules0)"
    and acts: "map RuleResult.action (evaluateRules runtime0 tx_risky rules0) =
                map Rule.action (sort_key priority rules0)"
    and at: "\<And>i. i < length rules0 \<Longrightarrow>
      matched (evaluateRules runtime0 tx_risky rules0 ! i) =
        (evaluateRule runtime0 tx_risky (sort_key priority rules0 ! i) = Inr True)"
    by blast+
  have f: "Rule.id rule_high_risk = ''rule-123''" "Rule.id rule_amount = ''rule-amount''"
    "Rule.id rule_ill_typed = ''rule-country''" "Rule.action rule_high_risk = DECLINE"
    "Rule.action rule_amount = REVIEW" "Rule.action rule_ill_typed = DECLINE"
    by (simp_all add: rule_high_risk_def rule_amount_def rule_ill_typed_def)
  from at [of 0] at [of 1] at [of 2] l ids acts pr show ?thesis
    by (simp add: len sorted_rules0 eval_rule_ill_typed eval_rule_amount eval_rule_high_risk f)
qed

theorem C10_witness:
  "0 < length [rule_amount, rule_unconditioned] \<and>
   Rule.conditions (sort_key priority [rule_amount, rule_unconditioned] ! 0) = Some [] \<and>
   evaluateRules runtime0 tx_risky [rule_amount, rule_unconditioned] ! 0 =
     result_of rule_unconditioned False"
proof -
  have s: "sort_key priority [rule_amount, rule_unconditioned] = [rule_unconditioned, rule_amount]"
    by (simp add: rule_amount_def rule_unconditioned_def)
  have c: "Rule.conditions rule_unconditioned = Some []" by (simp add: rule_unconditioned_def)
  note th = C10_unconditioned_rule_never_matches
      [of 0 "[rule_amount, rule_unconditioned]" runtime0 tx_risky, unfolded s]
  show ?thesis unfolding s using th c by simp
qed

lemma card_rule_would_match:
  "evaluateCardRule runtime0
     (JObj [(''highRiskTokens'',
        JArr [JStr ''tkn_risky123'', JStr ''tkn_flagged456'', JStr ''tkn_suspect789''])])
     (prepareTransactionData tx_risky) = Inr True"
  by (simp add: evaluateCardRule_def get_prop_def truthy_def falsy_def truthy_str_def
      tx_risky_data as_array_def combine_def)

text \<open>
  Claim C1, at the repository's own example. The transaction is paid by card with the
  token \<^verbatim>\<open>tkn_risky123\<close>, the rule's only condition is a card block that lists the token
  among its high-risk tokens, and \<^verbatim>\<open>evaluateCardRule\<close> on that block returns true; yet
  \<^verbatim>\<open>evaluateRules\<close> reports the rule as not matched, since the loop over the conditions
  takes \<^verbatim>\<open>card\<close> for an unknown condition type before the card block is looked at.
\<close>

theorem C1_high_risk_token_rule_reported_unmatched:
  "Transaction.paymentMethod tx_risky = Some ''card'' \<and>
   evaluateCardRule runtime0
     (JObj [(''highRiskTokens'',
        JArr [JStr ''tkn_risky123'', JStr ''tkn_flagged456'', JStr ''tkn_suspect789''])])
     (prepareTransactionData tx_risky) = Inr True \<and>
   Transaction.paymentToken tx_risky = Some ''tkn_risky123'' \<and>
   Rule.conditions rule_high_risk =
     Some [(''card'', JObj [(''highRiskTokens'',
        JArr [JStr ''tkn_risky123'', JStr ''tkn_flagged456'', JStr ''tkn_suspect789''])])] \<and>
   evaluateRules runtime0 tx_risky [rule_high_risk] =
     [\<lparr>ruleId = ''rule-123'', ruleName = ''High-Risk Card Tokens'', action = DECLINE,
       matched = False, conditions = Rule.conditions rule_high_risk\<rparr>]"
  by (simp add: evaluateRules_def eval_rule_high_risk result_of_def card_rule_would_match)
     (simp add: rule_high_risk_def tx_risky_def)

subsection \<open>Short merchant names\<close>

lemma unenriched_data:
  "enrichedData tx = None \<Longrightarrow>
   isEnriched (prepareTransactionData tx) = False \<and>
   merchantName (prepareTransactionData tx) = Transaction.merchantName tx"
  by (simp add: prepareTransactionData_def)

lemma short_score:
  assumes "a \<noteq> []" "v \<noteq> []"
    and "length (cleanMerchantName a) < 3" "length (cleanMerchantName v) < 3"
  shows "computeConfidenceScore rt a (JStr v) =
           Inr (if cleanMerchantName a = cleanMerchantName v then 1 else 0)"
  using assms by (simp add: computeConfidenceScore_def falsy_def Let_def)

text \<open>
  Claim C9, as amended. For a transaction that is not enriched, a merchant name and a
  condition value that are both non-empty strings and both clean to fewer than three
  characters, the conditions \<^verbatim>\<open>merchant_name_equals\<close> and \<^verbatim>\<open>merchant_name_contains\<close> are met
  exactly when the two cleaned strings are equal.
\<close>

theorem C9_short_names_match_exactly:
  assumes "enrichedData tx = None"
    and "Transaction.merchantName tx \<noteq> []" and "v \<noteq> []"
    and "length (cleanMerchantName (Transaction.merchantName tx)) < 3"
    and "length (cleanMerchantName v) < 3"
    and "t = ''merchant_name_equals'' \<or> t = ''merchant_name_contains''"
  shows "evaluateCondition rt t (JStr v) (prepareTransactionData tx) =
           Inr (cleanMerchantName (Transaction.merchantName tx) = cleanMerchantName v)"
proof -
  note sc = short_score [OF assms(2,3,4,5), of rt]
  from assms(6) show ?thesis
  proof
    assume "t = ''merchant_name_equals''"
    then show ?thesis
      using assms(2) sc
      by (simp add: evaluateCondition_def unenriched_data [OF assms(1)] smartStringMatch_def
          CONFIDENCE_THRESHOLD_def)
  next
    assume "t = ''merchant_name_contains''"
    then show ?thesis
      using sc
      by (simp add: evaluateCondition_def unenriched_data [OF assms(1)] CONFIDENCE_THRESHOLD_def)
  qed
qed

lemma clean_LLC: "cleanMerchantName ''LLC'' = []"
  by code_simp

lemma clean_inc: "cleanMerchantName ''inc'' = []"
  by code_simp

lemma clean_empty: "cleanMerchantName [] = []"
  by (simp add: cleanMerchantName_def)

lemma tx_llc_fields:
  "enrichedData tx_llc = None" "Transaction.merchantName tx_llc = ''LLC''"
  by (simp_all add: tx_llc_def tx_risky_def)

theorem C9_witness:
  "enrichedData tx_llc = None \<and> Transaction.merchantName tx_llc = ''LLC'' \<and>
   cleanMerchantName ''LLC'' = [] \<and> cleanMerchantName ''inc'' = [] \<and>
   evaluateCondition runtime0 ''merchant_name_equals'' (JStr ''inc'') (prepareTransactionData tx_llc) = Inr True \<and>
   evaluateCondition runtime0 ''merchant_name_contains'' (JStr ''inc'') (prepareTransactionData tx_llc) = Inr True"
  using C9_short_names_match_exactly [of tx_llc "''inc''" "''merchant_name_equals''" runtime0]
    C9_short_names_match_exactly [of tx_llc "''inc''" "''merchant_name_contains''" runtime0]
  by (simp add: tx_llc_fields clean_LLC clean_inc)

text \<open>
  Claim C9 as stated fails when the condition value is the empty string: the merchant
  name \<^verbatim>\<open>LLC\<close> cleans to the empty string as well, the two cleaned strings are equal, and
  neither condition is met, the score of an empty operand being 0.
\<close>

theorem C9_counterexample:
  "enrichedData tx_llc = None \<and>
   length (cleanMerchantName (Transaction.merchantName tx_llc)) < 3 \<and>
   length (cleanMerchantName '''') < 3 \<and>
   cleanMerchantName (Transaction.merchantName tx_llc) = cleanMerchantName '''' \<and>
   evaluateCondition runtime0 ''merchant_name_equals'' (JStr '''') (prepareTransactionData tx_llc) = Inr False \<and>
   evaluateCondition runtime0 ''merchant_name_contains'' (JStr '''') (prepareTransactionData tx_llc) = Inr False"
  by (simp add: tx_llc_fields clean_LLC clean_empty evaluateCondition_def
      unenriched_data [OF tx_llc_fields(1)] smartStringMatch_def computeConfidenceScore_def
      falsy_def CONFIDENCE_THRESHOLD_def)

subsection \<open>Behavioural patterns\<close>

lemma run_checks_raise:
  "Inl e \<in> set checks \<Longrightarrow> \<exists>e'. run_checks checks acc = Inl e'"
proof (induction checks arbitrary: acc)
  case Nil
  then show ?case by simp
next
  case (Cons c checks)
  then show ?case by (cases c) (auto split: option.splits)
qed

lemma run_checks_ok:
  "\<forall>e. Inl e \<notin> set checks \<Longrightarrow> run_checks checks acc = Inr (acc @ non_failing_results checks)"
proof (induction checks arbitrary: acc)
  case Nil
  then show ?case by (simp add: non_failing_results_def)
next
  case (Cons c checks)
  then show ?case by (cases c) (auto simp: non_failing_results_def split: option.splits)
qed

text \<open>
  Claim C3, as amended. \<^verbatim>\<open>evaluateBehavioralPatterns\<close> never raises. When reading the
  history raises, or any of the six checks does, it returns the empty list; when nothing
  raises it returns the results of the checks in their order.
\<close>

theorem C3_any_raise_empties_the_results:
  "((\<exists>e. getAccountTransactionHistory txRepo (Account.id account) 50 = Inl e) \<longrightarrow>
      evaluateBehavioralPatterns pf rt txRepo tx account = []) \<and>
   (\<forall>h. getAccountTransactionHistory txRepo (Account.id account) 50 = Inr h \<longrightarrow>
      ((\<exists>e. Inl e \<in> set (behavioral_checks pf rt txRepo tx account h)) \<longrightarrow>
         evaluateBehavioralPatterns pf rt txRepo tx account = []) \<and>
      ((\<forall>e. Inl e \<notin> set (behavioral_checks pf rt txRepo tx account h)) \<longrightarrow>
         evaluateBehavioralPatterns pf rt txRepo tx account =
           non_failing_results (behavioral_checks pf rt txRepo tx account h)))"
proof (intro conjI allI impI)
  assume "\<exists>e. getAccountTransactionHistory txRepo (Account.id account) 50 = Inl e"
  then show "evaluateBehavioralPatterns pf rt txRepo tx account = []"
    by (auto simp: evaluateBehavioralPatterns_def)
next
  fix h
  assume h: "getAccountTransactionHistory txRepo (Account.id account) 50 = Inr h"
    and "\<exists>e. Inl e \<in> set (behavioral_checks pf rt txRepo tx account h)"
  then obtain e where "Inl e \<in> set (behavioral_checks pf rt txRepo tx account h)" by blast
  from run_checks_raise [OF this, of "[]"] h
  show "evaluateBehavioralPatterns pf rt txRepo tx account = []"
    by (auto simp: evaluateBehavioralPatterns_def)
next
  fix h
  assume h: "getAccountTransactionHistory txRepo (Account.id account) 50 = Inr h"
    and "\<forall>e. Inl e \<notin> set (behavioral_checks pf rt txRepo tx account h)"
  from run_checks_ok [OF this(2), of "[]"] h
  show "evaluateBehavioralPatterns pf rt txRepo tx account =
          non_failing_results (behavioral_checks pf rt txRepo tx account h)"
    by (simp add: evaluateBehavioralPatterns_def)
qed

lemma account_ids:
  "Account.id account_A = ''A''" "Account.id account_null_countries = ''A''"
  "metadata account_A = None"
  "metadata account_null_countries = Some [(''usualCountries'', JStr ''null'')]"
  by (simp_all add: account_A_def account_null_countries_def)

lemma history_of_A:
  "getAccountTransactionHistory repo_counts_raise ''A'' 50 = Inr [tx_earlier]"
  "getAccountTransactionHistory repo_quiet ''A'' 50 = Inr [tx_earlier]"
  by (simp_all add: getAccountTransactionHistory_def repo_counts_raise_def repo_quiet_def)

lemma tx_risky_fields:
  "Transaction.paymentToken tx_risky = Some ''tkn_risky123''"
  "Transaction.cardFingerprint tx_risky = Some ''fp_risk123''"
  "Transaction.paymentMethod tx_risky = Some ''card''"
  "Transaction.merchantCategoryCode tx_risky = Some ''5411''"
  "Transaction.countryCode tx_risky = Some ''US''"
  "Transaction.accountId tx_risky = ''A''"
  by (simp_all add: tx_risky_def)

lemma tx_earlier_fields:
  "Transaction.paymentToken tx_earlier = Some ''tkn_other''"
  "Transaction.cardFingerprint tx_earlier = Some ''fp_other''"
  "Transaction.paymentMethod tx_earlier = Some ''card''"
  "Transaction.countryCode tx_earlier = Some ''US''"
  by (simp_all add: tx_earlier_def tx_risky_def)

lemma fmul_platform0: "fmul platform0 1 double_tenth = double_tenth"
  by (simp add: platform0_def)

lemma usual_of_short_history: "usual_from_history platform0 [tx_earlier] = [''US'']"
proof -
  have c: "\<lceil>double_tenth\<rceil> = 1" by (simp add: double_tenth_def ceiling_eq_iff)
  have k: "key_order [''US''] = [''US'']"
    by (simp add: key_order_def is_index_def is_digit_def)
  show ?thesis
    by (simp add: usual_from_history_def truthy_values_def truthy_str_def tx_earlier_fields
        first_occurrences_def fmul_platform0 c k)
qed

lemma checks_on_short_history:
  "detectNewPaymentMethod tx_risky [tx_earlier] = Some new_card_result"
  "detectAmountAnomaly platform0 tx_risky [tx_earlier] = None"
  "detectMerchantCategoryAnomaly tx_risky [tx_earlier] = None"
  "detectTimePatternAnomaly platform0 tx_risky [tx_earlier] = None"
     apply (simp add: detectNewPaymentMethod_def truthy_str_def tx_risky_fields tx_earlier_fields
        new_card_result_def)
    apply (simp add: detectAmountAnomaly_def)
   apply (simp add: detectMerchantCategoryAnomaly_def)
  apply (simp add: detectTimePatternAnomaly_def)
  done

lemma location_usual:
  "detectLocationAnomaly platform0 runtime0 tx_risky [tx_earlier] account_A = Inr None"
  by (simp add: detectLocationAnomaly_def truthy_str_def tx_risky_fields account_ids truthy_def
      js_length_def usual_of_short_history js_compare_def to_number_def js_includes_def)

lemma location_raises:
  "detectLocationAnomaly platform0 runtime0 tx_risky [tx_earlier] account_null_countries =
     Inl TypeError"
  by (simp add: detectLocationAnomaly_def truthy_str_def tx_risky_fields account_ids truthy_def
      falsy_def platform0_def js_length_def)

lemma velocity_raises: "detectVelocityAnomaly repo_counts_raise runtime0 tx_risky = Inl DbError"
  by (simp add: detectVelocityAnomaly_def truthy_str_def tx_risky_fields repo_counts_raise_def)

lemma velocity_quiet: "detectVelocityAnomaly repo_quiet runtime0 tx_risky = Inr None"
  by (simp add: detectVelocityAnomaly_def truthy_str_def tx_risky_fields repo_quiet_def)

lemma checks_with_raise:
  "behavioral_checks platform0 runtime0 repo_counts_raise tx_risky account_A [tx_earlier] =
     [Inr (Some new_card_result), Inr None, Inr None, Inr None, Inr None, Inl DbError]"
  by (simp add: behavioral_checks_def checks_on_short_history location_usual velocity_raises)

lemma checks_quiet:
  "behavioral_checks platform0 runtime0 repo_quiet tx_risky account_A [tx_earlier] =
     [Inr (Some new_card_result), Inr None, Inr None, Inr None, Inr None, Inr None]"
  by (simp add: behavioral_checks_def checks_on_short_history location_usual velocity_quiet)

lemma checks_null_countries:
  "behavioral_checks platform0 runtime0 repo_quiet tx_risky account_null_countries [tx_earlier] =
     [Inr (Some new_card_result), Inr None, Inr None, Inl TypeError, Inr None, Inr None]"
  by (simp add: behavioral_checks_def checks_on_short_history location_raises velocity_quiet)

theorem C3_witness:
  "getAccountTransactionHistory repo_counts_raise (Account.id account_A) 50 = Inr [tx_earlier] \<and>
   Inl DbError \<in>
     set (behavioral_checks platform0 runtime0 repo_counts_raise tx_risky account_A [tx_earlier]) \<and>
   evaluateBehavioralPatterns platform0 runtime0 repo_counts_raise tx_risky account_A = [] \<and>
   Inl TypeError \<in>
     set (behavioral_checks platform0 runtime0 repo_quiet tx_risky account_null_countries
            [tx_earlier]) \<and>
   evaluateBehavioralPatterns platform0 runtime0 repo_quiet tx_risky account_null_countries = [] \<and>
   evaluateBehavioralPatterns platform0 runtime0 repo_quiet tx_risky account_A = [new_card_result]"
proof -
  have r: "Inl DbError \<in>
      set (behavioral_checks platform0 runtime0 repo_counts_raise tx_risky account_A [tx_earlier])"
    by (simp add: checks_with_raise)
  have t: "Inl TypeError \<in>
      set (behavioral_checks platform0 runtime0 repo_quiet tx_risky account_null_countries
             [tx_earlier])"
    by (simp add: checks_null_countries)
  have q: "\<forall>e. Inl e \<notin>
      set (behavioral_checks platform0 runtime0 repo_quiet tx_risky account_A [tx_earlier])"
    by (simp add: checks_quiet)
  have n: "non_failing_results
             (behavioral_checks platform0 runtime0 repo_quiet tx_risky account_A [tx_earlier]) =
           [new_card_result]"
    by (simp add: checks_quiet non_failing_results_def)
  have ha: "getAccountTransactionHistory repo_counts_raise (Account.id account_A) 50 =
              Inr [tx_earlier]"
    and hq: "getAccountTransactionHistory repo_quiet (Account.id account_A) 50 = Inr [tx_earlier]"
    and hn: "getAccountTransactionHistory repo_quiet (Account.id account_null_countries) 50 =
              Inr [tx_earlier]"
    by (simp_all add: account_ids history_of_A)
  from C3_any_raise_empties_the_results
         [of repo_counts_raise account_A platform0 runtime0 tx_risky] ha r
  have a: "evaluateBehavioralPatterns platform0 runtime0 repo_counts_raise tx_risky account_A = []"
    by blast
  from C3_any_raise_empties_the_results
         [of repo_quiet account_null_countries platform0 runtime0 tx_risky] hn t
  have c: "evaluateBehavioralPatterns platform0 runtime0 repo_quiet tx_risky
             account_null_countries = []"
    by blast
  from C3_any_raise_empties_the_results [of repo_quiet account_A platform0 runtime0 tx_risky] hq q
  have b: "evaluateBehavioralPatterns platform0 runtime0 repo_quiet tx_risky account_A =
             non_failing_results
               (behavioral_checks platform0 runtime0 repo_quiet tx_risky account_A [tx_earlier])"
    by blast
  show ?thesis using ha r t a b c n by simp
qed

text \<open>
  Claim C3 as stated fails: the velocity check raises on its counting query after the
  new-payment-method check has produced a result, and the detector returns the empty
  list, not that result. It fails in the same way, with no fault of the repository, for
  an account whose stored usual countries are the text \<^verbatim>\<open>null\<close>: the location check then
  raises on the length of \<^verbatim>\<open>null\<close>.
\<close>

theorem C3_counterexample:
  "detectVelocityAnomaly repo_counts_raise runtime0 tx_risky = Inl DbError \<and>
   detectNewPaymentMethod tx_risky [tx_earlier] = Some new_card_result \<and>
   non_failing_results
     (behavioral_checks platform0 runtime0 repo_counts_raise tx_risky account_A [tx_earlier]) =
     [new_card_result] \<and>
   evaluateBehavioralPatterns platform0 runtime0 repo_counts_raise tx_risky account_A = [] \<and>
   detectLocationAnomaly platform0 runtime0 tx_risky [tx_earlier] account_null_countries =
     Inl TypeError \<and>
   non_failing_results
     (behavioral_checks platform0 runtime0 repo_quiet tx_risky account_null_countries
        [tx_earlier]) = [new_card_result] \<and>
   evaluateBehavioralPatterns platform0 runtime0 repo_quiet tx_risky account_null_countries = []"
  by (simp add: velocity_raises location_raises checks_on_short_history checks_with_raise
      checks_null_countries non_failing_results_def evaluateBehavioralPatterns_def history_of_A
      account_ids)

end
